theory Spec2Isabelle
  imports Main "HOL-Library.Sublist"
begin

section \<open>Failures\<close>

text \<open>
  Every exception the Python code can raise on the paths modelled here is a value.
  \<open>HTTPException status detail\<close> is FastAPI's exception. \<open>JWTError\<close> is the signing
  library's exception and \<open>ExpiredSignatureError\<close> and \<open>JWTClaimsError\<close> are its
  subclasses: a handler \<open>except JWTError\<close> catches the three and nothing else. The others
  are Python's built-in exceptions, which no handler of the application catches.
\<close>

datatype error =
    HTTPException nat string
  | JWTError
  | ExpiredSignatureError
  | JWTClaimsError
  | KeyError string
  | AttributeError string
  | TypeError
  | ValueError
  | OverflowError
  | IntegrityError

fun is_JWTError :: "error \<Rightarrow> bool" where
  "is_JWTError JWTError = True"
| "is_JWTError ExpiredSignatureError = True"
| "is_JWTError JWTClaimsError = True"
| "is_JWTError _ = False"

section \<open>Rate limiter (services/rate\_limiter.py)\<close>

text \<open>
  The Redis server is modelled as a map from keys to entries. An entry holds the stored
  integer and the absolute time at which the key expires (\<open>None\<close>: no time-to-live).
  Time is counted in seconds. A key whose expiry time has passed is invisible to every
  command, as in Redis (a key is expired once the clock is past its expiry time).
  One call of \<open>limit_rate\<close> happens at one instant \<open>now\<close>.
\<close>

record redis_entry =
  rvalue :: int
  expire_at :: "nat option"

type_synonym redis = "string \<rightharpoonup> redis_entry"

definition live :: "redis \<Rightarrow> string \<Rightarrow> nat \<Rightarrow> redis_entry option" where
  "live s k now =
     (case s k of
        None \<Rightarrow> None
      | Some e \<Rightarrow>
          (case expire_at e of
             None \<Rightarrow> Some e
           | Some t \<Rightarrow> if now > t then None else Some e))"

definition redis_get :: "redis \<Rightarrow> string \<Rightarrow> nat \<Rightarrow> int option" where
  "redis_get s k now = map_option rvalue (live s k now)"

definition redis_set_ex :: "redis \<Rightarrow> string \<Rightarrow> int \<Rightarrow> nat \<Rightarrow> nat \<Rightarrow> redis" where
  "redis_set_ex s k v ex now = s(k \<mapsto> \<lparr>rvalue = v, expire_at = Some (now + ex)\<rparr>)"

definition redis_incr :: "redis \<Rightarrow> string \<Rightarrow> nat \<Rightarrow> redis" where
  \<comment> \<open>INCR keeps the time-to-live of a key that exists; a missing key starts at 0 with none.\<close>
  "redis_incr s k now =
     (case live s k now of
        None \<Rightarrow> s(k \<mapsto> \<lparr>rvalue = 1, expire_at = None\<rparr>)
      | Some e \<Rightarrow> s(k \<mapsto> e\<lparr>rvalue := rvalue e + 1\<rparr>))"

definition RATE_LIMIT :: int where
  "RATE_LIMIT = 5"

definition TIME_FRAME :: nat where
  "TIME_FRAME = 60"

definition rate_key :: "string \<Rightarrow> string" where
  "rate_key user_id = ''rate_limit:'' @ user_id"

definition too_many_requests :: error where
  "too_many_requests = HTTPException 429 ''Too many requests. Please try again later.''"

definition limit_rate :: "nat \<Rightarrow> string \<Rightarrow> redis \<Rightarrow> error + redis" where
  "limit_rate now user_id s =
     (let key = rate_key user_id;
          current_count = redis_get s key now
      in case current_count of
           None \<Rightarrow> Inr (redis_set_ex s key 1 TIME_FRAME now)
         | Some c \<Rightarrow>
             if c < RATE_LIMIT then Inr (redis_incr s key now)
             else Inl too_many_requests)"

section \<open>Token service (services/auth.py)\<close>

text \<open>
  The values a token's claims can hold: what JSON has, but for the numbers that are not
  integers. Python's \<open>None\<close> is \<open>JNull\<close>.
\<close>

datatype json =
    JNull
  | JBool bool
  | JNum int
  | JStr string
  | JList "json list"
  | JObj "(string \<times> json) list"

text \<open>
  A Python dict with string keys, in insertion order. \<open>dict_update\<close> is
  \<open>d.update({k: v})\<close>, \<open>dict_item\<close> is \<open>d[k]\<close> (KeyError on a missing key) and
  \<open>dict_get\<close> is \<open>d.get(k)\<close> (\<open>None\<close> on a missing key).
\<close>

type_synonym payload = "(string \<times> json) list"

fun dict_update :: "string \<Rightarrow> json \<Rightarrow> payload \<Rightarrow> payload" where
  "dict_update k v [] = [(k, v)]"
| "dict_update k v ((k', v') # d) =
     (if k' = k then (k, v) # d else (k', v') # dict_update k v d)"

definition dict_item :: "payload \<Rightarrow> string \<Rightarrow> error + json" where
  "dict_item d k = (case map_of d k of None \<Rightarrow> Inl (KeyError k) | Some v \<Rightarrow> Inr v)"

definition dict_get :: "payload \<Rightarrow> string \<Rightarrow> json" where
  "dict_get d k = (case map_of d k of None \<Rightarrow> JNull | Some v \<Rightarrow> v)"

text \<open>
  Python's \<open>int(x)\<close> on a claim's value, as the signing library calls it on the time
  claims. A string is read as a decimal number: white space around it is dropped, a sign
  may lead, and single underscores may stand between digits; any other string raises
  ValueError. \<open>None\<close>, a list and an object raise TypeError.
\<close>

definition is_space :: "char \<Rightarrow> bool" where
  "is_space c = (let n = (of_char c :: nat) in (9 \<le> n \<and> n \<le> 13) \<or> (28 \<le> n \<and> n \<le> 32))"

definition is_digit :: "char \<Rightarrow> bool" where
  "is_digit c = (let n = (of_char c :: nat) in 48 \<le> n \<and> n \<le> 57)"

definition digit_value :: "char \<Rightarrow> int" where
  "digit_value c = int (of_char c) - 48"

fun parse_digits :: "int \<Rightarrow> bool \<Rightarrow> string \<Rightarrow> int option" where
  "parse_digits acc after_digit [] = (if after_digit then Some acc else None)"
| "parse_digits acc after_digit (c # cs) =
     (if is_digit c then parse_digits (10 * acc + digit_value c) True cs
      else if c = CHR ''_'' \<and> after_digit \<and> (case cs of [] \<Rightarrow> False | d # _ \<Rightarrow> is_digit d)
      then parse_digits acc False cs
      else None)"

definition strip :: "string \<Rightarrow> string" where
  "strip s = rev (dropWhile is_space (rev (dropWhile is_space s)))"

definition int_of_str :: "string \<Rightarrow> int option" where
  "int_of_str s =
     (case strip s of
        [] \<Rightarrow> None
      | c # cs \<Rightarrow>
          if c = CHR ''-'' then map_option uminus (parse_digits 0 False cs)
          else if c = CHR ''+'' then parse_digits 0 False cs
          else parse_digits 0 False (c # cs))"

definition py_int :: "json \<Rightarrow> error + int" where
  "py_int v =
     (case v of
        JNum n \<Rightarrow> Inr n
      | JBool b \<Rightarrow> Inr (if b then 1 else 0)
      | JStr s \<Rightarrow> (case int_of_str s of None \<Rightarrow> Inl ValueError | Some n \<Rightarrow> Inr n)
      | _ \<Rightarrow> Inl TypeError)"

text \<open>
  The signing library (python-jose) is outside the repository; this is its
  \<open>jwt.encode\<close> and \<open>jwt.decode\<close> as the application calls them (no audience, issuer,
  subject or access token given, every check left on, no leeway). A token is either a
  string that is no JWS at all, or the compact serialisation of a claims set signed with
  some key under some algorithm. Signatures are ideal: a token verifies under exactly the
  key it was signed with. After the signature the library validates the claims, in this
  order, each only when the claim is present:
  \<^item> \<open>iat\<close> must convert with \<open>int\<close>;
  \<^item> \<open>nbf\<close> must convert with \<open>int\<close> and must not lie after the current time;
  \<^item> \<open>exp\<close> must convert with \<open>int\<close> and must not lie before the current time;
  \<^item> \<open>aud\<close> is refused, since no audience was given to compare it with;
  \<^item> \<open>sub\<close> must be a string;
  \<^item> \<open>jti\<close> must be a string;
  \<^item> \<open>at_hash\<close> is refused, since no access token was given to compare it with.
  A ValueError of \<open>int\<close> becomes a JWTClaimsError; a TypeError of \<open>int\<close> is not caught
  by the library. Times are seconds since the epoch.
\<close>

datatype token = Malformed string | JWS string string payload

definition jwt_encode :: "payload \<Rightarrow> string \<Rightarrow> string \<Rightarrow> token" where
  "jwt_encode claims key algorithm = JWS key algorithm claims"

definition claim_int :: "payload \<Rightarrow> string \<Rightarrow> (int \<Rightarrow> error option) \<Rightarrow> error option" where
  "claim_int claims name check =
     (case map_of claims name of
        None \<Rightarrow> None
      | Some v \<Rightarrow>
          (case py_int v of
             Inl e \<Rightarrow> Some (if e = ValueError then JWTClaimsError else e)
           | Inr n \<Rightarrow> check n))"

definition validate_iat :: "payload \<Rightarrow> error option" where
  "validate_iat claims = claim_int claims ''iat'' (\<lambda>iat. None)"

definition validate_nbf :: "int \<Rightarrow> payload \<Rightarrow> error option" where
  "validate_nbf now claims =
     claim_int claims ''nbf'' (\<lambda>nbf. if nbf > now then Some JWTClaimsError else None)"

definition validate_exp :: "int \<Rightarrow> payload \<Rightarrow> error option" where
  "validate_exp now claims =
     claim_int claims ''exp'' (\<lambda>exp. if exp < now then Some ExpiredSignatureError else None)"

definition validate_aud :: "payload \<Rightarrow> error option" where
  "validate_aud claims =
     (case map_of claims ''aud'' of None \<Rightarrow> None | Some _ \<Rightarrow> Some JWTClaimsError)"

definition validate_sub :: "payload \<Rightarrow> error option" where
  "validate_sub claims =
     (case map_of claims ''sub'' of
        None \<Rightarrow> None
      | Some (JStr _) \<Rightarrow> None
      | Some _ \<Rightarrow> Some JWTClaimsError)"

definition validate_jti :: "payload \<Rightarrow> error option" where
  "validate_jti claims =
     (case map_of claims ''jti'' of
        None \<Rightarrow> None
      | Some (JStr _) \<Rightarrow> None
      | Some _ \<Rightarrow> Some JWTClaimsError)"

definition validate_at_hash :: "payload \<Rightarrow> error option" where
  "validate_at_hash claims =
     (case map_of claims ''at_hash'' of None \<Rightarrow> None | Some _ \<Rightarrow> Some JWTClaimsError)"

fun first_failure :: "error option list \<Rightarrow> error option" where
  "first_failure [] = None"
| "first_failure (None # checks) = first_failure checks"
| "first_failure (Some e # checks) = Some e"

definition validate_claims :: "int \<Rightarrow> payload \<Rightarrow> error option" where
  "validate_claims now claims =
     first_failure [validate_iat claims, validate_nbf now claims, validate_exp now claims,
                    validate_aud claims, validate_sub claims, validate_jti claims,
                    validate_at_hash claims]"

definition jwt_decode :: "int \<Rightarrow> token \<Rightarrow> string \<Rightarrow> string list \<Rightarrow> error + payload" where
  "jwt_decode now tok key algorithms =
     (case tok of
        Malformed _ \<Rightarrow> Inl JWTError
      | JWS k alg claims \<Rightarrow>
          if alg \<notin> set algorithms then Inl JWTError
          else if k \<noteq> key then Inl JWTError
          else (case validate_claims now claims of
                  Some e \<Rightarrow> Inl e
                | None \<Rightarrow> Inr claims))"

record CryptContext =
  hash :: "string \<Rightarrow> string"
  verify :: "string \<Rightarrow> string \<Rightarrow> bool"

record Auth =
  pwd_context :: CryptContext
  SECRET_KEY :: string
  ALGORITHM :: string

definition hash_password :: "Auth \<Rightarrow> string \<Rightarrow> string" where
  "hash_password self password = hash (pwd_context self) password"

definition verify_password :: "Auth \<Rightarrow> string \<Rightarrow> string \<Rightarrow> bool" where
  "verify_password self plain_password hashed_password =
     verify (pwd_context self) plain_password hashed_password"

text \<open>
  \<open>expires_delta\<close> is a number of seconds or \<open>None\<close>; a zero \<open>timedelta\<close> is
  false in Python, so it selects the default as \<open>None\<close> does.
\<close>

definition create_access_token :: "Auth \<Rightarrow> int \<Rightarrow> payload \<Rightarrow> int option \<Rightarrow> token" where
  "create_access_token self utcnow data expires_delta =
     (let to_encode = data;
          expire = (case expires_delta of
                      Some d \<Rightarrow> if d \<noteq> 0 then utcnow + d else utcnow + 30 * 60
                    | None \<Rightarrow> utcnow + 30 * 60);
          to_encode = dict_update ''scope'' (JStr ''access_token'')
                        (dict_update ''exp'' (JNum expire) to_encode)
      in jwt_encode to_encode (SECRET_KEY self) (ALGORITHM self))"

definition create_refresh_token :: "Auth \<Rightarrow> int \<Rightarrow> payload \<Rightarrow> int option \<Rightarrow> token" where
  "create_refresh_token self utcnow data expires_delta =
     (let to_encode = data;
          expire = (case expires_delta of
                      Some d \<Rightarrow> if d \<noteq> 0 then utcnow + d else utcnow + 7 * 86400
                    | None \<Rightarrow> utcnow + 7 * 86400);
          to_encode = dict_update ''scope'' (JStr ''refresh_token'')
                        (dict_update ''exp'' (JNum expire) to_encode)
      in jwt_encode to_encode (SECRET_KEY self) (ALGORITHM self))"

definition create_email_token :: "Auth \<Rightarrow> int \<Rightarrow> payload \<Rightarrow> token" where
  "create_email_token self utcnow data =
     (let to_encode = data;
          expire = utcnow + 7 * 86400;
          to_encode = dict_update ''exp'' (JNum expire)
                        (dict_update ''iat'' (JNum utcnow) to_encode)
      in jwt_encode to_encode (SECRET_KEY self) (ALGORITHM self))"

definition invalid_scope :: error where
  "invalid_scope = HTTPException 401 ''Invalid scope for token''"

definition credentials_exception :: error where
  "credentials_exception = HTTPException 401 ''Could not validate credentials''"

text \<open>
  Only \<open>JWTError\<close> is caught. A \<open>KeyError\<close> from \<open>payload['scope']\<close> or
  \<open>payload['sub']\<close>, a TypeError out of the library and the \<open>HTTPException\<close> raised
  inside the \<open>try\<close> leave the function as they are.
\<close>

definition decode_refresh_token :: "Auth \<Rightarrow> int \<Rightarrow> token \<Rightarrow> error + json" where
  "decode_refresh_token self now refresh_token =
     (case jwt_decode now refresh_token (SECRET_KEY self) [ALGORITHM self] of
        Inl err \<Rightarrow> if is_JWTError err then Inl credentials_exception else Inl err
      | Inr payload \<Rightarrow>
          (case dict_item payload ''scope'' of
             Inl e \<Rightarrow> Inl e
           | Inr scope \<Rightarrow>
               if scope = JStr ''refresh_token''
               then (case dict_item payload ''sub'' of Inl e \<Rightarrow> Inl e | Inr email \<Rightarrow> Inr email)
               else Inl invalid_scope))"

definition get_email_from_token :: "Auth \<Rightarrow> int \<Rightarrow> token \<Rightarrow> error + json" where
  "get_email_from_token self now tok =
     (case jwt_decode now tok (SECRET_KEY self) [ALGORITHM self] of
        Inl err \<Rightarrow>
          if is_JWTError err then Inl (HTTPException 422 ''Invalid token for email verification'')
          else Inl err
      | Inr payload \<Rightarrow> Inr (dict_get payload ''sub''))"

section \<open>Users (db/models.py, repository/users.py)\<close>

record User =
  u_id :: int
  username :: string
  u_email :: string
  password :: string
  avatar :: "string option"
  refresh_token :: "token option"
  confirmed :: bool

record UserCreate =
  uc_username :: string
  uc_email :: string
  uc_password :: string

text \<open>
  A calendar date as Python's \<open>datetime.date\<close> has it. Adding a number of days walks
  the calendar; a result after the year 9999 is Python's OverflowError.
\<close>

record date =
  year :: nat
  month :: nat
  day :: nat

definition is_leap :: "nat \<Rightarrow> bool" where
  "is_leap y = (y mod 4 = 0 \<and> (y mod 100 \<noteq> 0 \<or> y mod 400 = 0))"

definition days_in_month :: "nat \<Rightarrow> nat \<Rightarrow> nat" where
  "days_in_month y m =
     (if m = 2 then (if is_leap y then 29 else 28)
      else if m = 4 \<or> m = 6 \<or> m = 9 \<or> m = 11 then 30
      else 31)"

definition valid_date :: "date \<Rightarrow> bool" where
  "valid_date d = (1 \<le> year d \<and> year d \<le> 9999 \<and> 1 \<le> month d \<and> month d \<le> 12 \<and>
                   1 \<le> day d \<and> day d \<le> days_in_month (year d) (month d))"

definition next_day :: "date \<Rightarrow> date" where
  "next_day d =
     (if day d < days_in_month (year d) (month d) then d\<lparr>day := day d + 1\<rparr>
      else if month d < 12 then d\<lparr>month := month d + 1, day := 1\<rparr>
      else d\<lparr>year := year d + 1, month := 1, day := 1\<rparr>)"

definition plus_days :: "date \<Rightarrow> nat \<Rightarrow> error + date" where
  "plus_days d n =
     (let r = (next_day ^^ n) d in if year r > 9999 then Inl OverflowError else Inr r)"

record Contact =
  c_id :: int
  first_name :: string
  second_name :: string
  c_email :: string
  phone :: string
  birthdate :: date
  additional_data :: "string option"
  user_id :: "int option"

record ContactCreate =
  cc_first_name :: string
  cc_second_name :: string
  cc_email :: string
  cc_phone :: string
  cc_birthdate :: date
  cc_additional_data :: "string option"

text \<open>
  The session holds the two tables, each a list of rows in the order the database returns
  them; \<open>.first()\<close> is the first row of the filtered list. Each table draws its primary
  keys from a sequence, of which the session holds the value issued last: a key is never
  issued twice, whatever is deleted. The argument of \<open>get_user_by_email\<close> is whatever
  Python value the caller passes: a decoded subject need not be a string, and a value that
  is no string equals no stored email.
\<close>

record Session =
  users_id_seq :: int
  contacts_id_seq :: int
  users :: "User list"
  contacts :: "Contact list"

definition get_user_by_email :: "json \<Rightarrow> Session \<Rightarrow> User option" where
  "get_user_by_email email db = find (\<lambda>r. JStr (u_email r) = email) (users db)"

text \<open>
  \<open>avatar\<close> is what the Gravatar lookup gave (\<open>None\<close> when it raised). The insert
  gives the row the next key of the sequence and the column default
  \<open>confirmed = False\<close>; the unique constraint on the email rejects a second row with the
  same address, the key drawn for it being lost.
\<close>

definition create_user :: "Session \<Rightarrow> UserCreate \<Rightarrow> string option \<Rightarrow> (error + User) \<times> Session" where
  "create_user db user gravatar =
     (let new_id = users_id_seq db + 1;
          new_user = \<lparr>u_id = new_id, username = uc_username user,
                       u_email = uc_email user, password = uc_password user,
                       avatar = gravatar, refresh_token = None, confirmed = False\<rparr>
      in if get_user_by_email (JStr (uc_email user)) db \<noteq> None
         then (Inl IntegrityError, db\<lparr>users_id_seq := new_id\<rparr>)
         else (Inr new_user, db\<lparr>users_id_seq := new_id, users := users db @ [new_user]\<rparr>))"

definition update_token :: "User \<Rightarrow> token option \<Rightarrow> Session \<Rightarrow> Session" where
  "update_token user tok db =
     db\<lparr>users := map (\<lambda>r. if u_id r = u_id user then r\<lparr>refresh_token := tok\<rparr> else r) (users db)\<rparr>"

definition confirmed_email :: "json \<Rightarrow> Session \<Rightarrow> error + Session" where
  "confirmed_email email db =
     (case get_user_by_email email db of
        None \<Rightarrow> Inl (AttributeError ''confirmed'')
      | Some user \<Rightarrow>
          Inr (db\<lparr>users := map (\<lambda>r. if u_id r = u_id user then r\<lparr>confirmed := True\<rparr> else r)
                               (users db)\<rparr>))"

definition get_current_user :: "Auth \<Rightarrow> int \<Rightarrow> token \<Rightarrow> Session \<Rightarrow> error + User" where
  "get_current_user self now tok db =
     (case jwt_decode now tok (SECRET_KEY self) [ALGORITHM self] of
        Inl err \<Rightarrow> if is_JWTError err then Inl credentials_exception else Inl err
      | Inr payload \<Rightarrow>
          (case dict_item payload ''scope'' of
             Inl e \<Rightarrow> Inl e
           | Inr scope \<Rightarrow>
               if scope = JStr ''access_token''
               then (case dict_item payload ''sub'' of
                       Inl e \<Rightarrow> Inl e
                     | Inr email \<Rightarrow>
                         if email = JNull then Inl credentials_exception
                         else (case get_user_by_email email db of
                                 None \<Rightarrow> Inl credentials_exception
                               | Some user \<Rightarrow> Inr user))
               else Inl credentials_exception))"

section \<open>Authentication routes (routes/auth.py)\<close>

text \<open>
  A route returns its response or its failure together with the session as it has been
  committed. The confirmation mail is a background task; the tasks a route has scheduled
  are part of its result where the route schedules any.
\<close>

record TokenModel =
  access_token :: token
  tm_refresh_token :: token
  token_type :: string

definition register :: "Auth \<Rightarrow> string option \<Rightarrow> UserCreate \<Rightarrow> Session
                          \<Rightarrow> (error + User \<times> (string \<times> string) list) \<times> Session" where
  "register self gravatar user db =
     (case get_user_by_email (JStr (uc_email user)) db of
        Some exist_user \<Rightarrow> (Inl (HTTPException 409 ''Email already registered''), db)
      | None \<Rightarrow>
          (let user = user\<lparr>uc_password := hash_password self (uc_password user)\<rparr>
           in case create_user db user gravatar of
                (Inl e, db') \<Rightarrow> (Inl e, db')
              | (Inr new_user, db') \<Rightarrow>
                  (Inr (new_user, [(u_email new_user, username new_user)]), db')))"

definition login :: "Auth \<Rightarrow> int \<Rightarrow> string \<Rightarrow> string \<Rightarrow> Session \<Rightarrow> (error + TokenModel) \<times> Session" where
  "login self now form_username form_password db =
     (case get_user_by_email (JStr form_username) db of
        None \<Rightarrow> (Inl (HTTPException 401 ''Invalid email''), db)
      | Some user \<Rightarrow>
          if \<not> confirmed user then (Inl (HTTPException 401 ''Email not confirmed''), db)
          else if \<not> verify_password self form_password (password user)
          then (Inl (HTTPException 401 ''Invalid password''), db)
          else (let access = create_access_token self now [(''sub'', JStr (u_email user))] None;
                    refresh = create_refresh_token self now [(''sub'', JStr (u_email user))] None
                in (Inr \<lparr>access_token = access, tm_refresh_token = refresh,
                          token_type = ''bearer''\<rparr>,
                    update_token user (Some refresh) db)))"

text \<open>
  \<open>user.confirmed\<close> is read before \<open>user\<close> is tested: on \<open>None\<close> the attribute
  access raises AttributeError.
\<close>

definition attr_confirmed :: "User option \<Rightarrow> error + bool" where
  "attr_confirmed user =
     (case user of None \<Rightarrow> Inl (AttributeError ''confirmed'') | Some u \<Rightarrow> Inr (confirmed u))"

definition request_email :: "string \<Rightarrow> Session \<Rightarrow> error + string \<times> (string \<times> string) list" where
  "request_email body_email db =
     (let user = get_user_by_email (JStr body_email) db
      in case attr_confirmed user of
           Inl e \<Rightarrow> Inl e
         | Inr c \<Rightarrow>
             if c then Inr (''Your email is already confirmed'', [])
             else (case user of
                     Some u \<Rightarrow> Inr (''Check your email for confirmation.'', [(u_email u, username u)])
                   | None \<Rightarrow> Inr (''Check your email for confirmation.'', [])))"

definition route_refresh_token :: "Auth \<Rightarrow> int \<Rightarrow> token \<Rightarrow> Session \<Rightarrow> (error + TokenModel) \<times> Session" where
  "route_refresh_token self now tok db =
     (case decode_refresh_token self now tok of
        Inl e \<Rightarrow> (Inl e, db)
      | Inr email \<Rightarrow>
          (case get_user_by_email email db of
             None \<Rightarrow> (Inl (AttributeError ''refresh_token''), db)
           | Some user \<Rightarrow>
               if refresh_token user \<noteq> Some tok
               then (Inl (HTTPException 401 ''Invalid refresh token''), update_token user None db)
               else (let access = create_access_token self now [(''sub'', email)] None;
                         refresh = create_refresh_token self now [(''sub'', email)] None
                     in (Inr \<lparr>access_token = access, tm_refresh_token = refresh,
                               token_type = ''bearer''\<rparr>,
                         update_token user (Some refresh) db))))"

definition route_confirmed_email :: "Auth \<Rightarrow> int \<Rightarrow> token \<Rightarrow> Session \<Rightarrow> (error + string) \<times> Session" where
  "route_confirmed_email self now tok db =
     (case get_email_from_token self now tok of
        Inl e \<Rightarrow> (Inl e, db)
      | Inr email \<Rightarrow>
          (case get_user_by_email email db of
             None \<Rightarrow> (Inl (HTTPException 400 ''Verification error''), db)
           | Some user \<Rightarrow>
               if confirmed user then (Inr ''Your email is already confirmed'', db)
               else (case confirmed_email email db of
                       Inl e \<Rightarrow> (Inl e, db)
                     | Inr db' \<Rightarrow> (Inr ''Email confirmed'', db'))))"

section \<open>Contacts (repository/contacts.py)\<close>

text \<open>
  A query is the list of the table's rows that pass its filters; \<open>offset\<close> and
  \<open>limit\<close> drop and take, \<open>first\<close> is the first row. A comparison of the nullable
  owner column with the user's key holds only for a row that has that owner. The numbers
  \<open>skip\<close> and \<open>limit\<close> are natural numbers: what a database does with a negative
  offset or limit is outside the model.
\<close>

definition get_contacts :: "Session \<Rightarrow> User \<Rightarrow> nat \<Rightarrow> nat \<Rightarrow> Contact list" where
  "get_contacts db user skip limit =
     take limit (drop skip (filter (\<lambda>c. user_id c = Some (u_id user)) (contacts db)))"

definition get_contact :: "Session \<Rightarrow> int \<Rightarrow> User \<Rightarrow> Contact option" where
  "get_contact db contact_id user =
     find (\<lambda>c. c_id c = contact_id \<and> user_id c = Some (u_id user)) (contacts db)"

definition create_contact :: "Session \<Rightarrow> ContactCreate \<Rightarrow> User \<Rightarrow> Contact \<times> Session" where
  "create_contact db contact user =
     (let new_id = contacts_id_seq db + 1;
          db_contact = \<lparr>c_id = new_id, first_name = cc_first_name contact,
                         second_name = cc_second_name contact, c_email = cc_email contact,
                         phone = cc_phone contact, birthdate = cc_birthdate contact,
                         additional_data = cc_additional_data contact,
                         user_id = Some (u_id user)\<rparr>
      in (db_contact, db\<lparr>contacts_id_seq := new_id, contacts := contacts db @ [db_contact]\<rparr>))"

definition set_fields :: "ContactCreate \<Rightarrow> Contact \<Rightarrow> Contact" where
  "set_fields contact r =
     r\<lparr>first_name := cc_first_name contact, second_name := cc_second_name contact,
       c_email := cc_email contact, phone := cc_phone contact,
       birthdate := cc_birthdate contact, additional_data := cc_additional_data contact\<rparr>"

definition upgrade_contact :: "Session \<Rightarrow> User \<Rightarrow> int \<Rightarrow> ContactCreate \<Rightarrow> Contact option \<times> Session" where
  "upgrade_contact db user contact_id contact =
     (case find (\<lambda>c. c_id c = contact_id \<and> user_id c = Some (u_id user)) (contacts db) of
        None \<Rightarrow> (None, db)
      | Some db_contact \<Rightarrow>
          (Some (set_fields contact db_contact),
           db\<lparr>contacts := map (\<lambda>r. if c_id r = c_id db_contact then set_fields contact r else r)
                               (contacts db)\<rparr>))"

definition delete_contact :: "Session \<Rightarrow> User \<Rightarrow> int \<Rightarrow> Contact option \<times> Session" where
  "delete_contact db user contact_id =
     (case find (\<lambda>c. c_id c = contact_id \<and> user_id c = Some (u_id user)) (contacts db) of
        None \<Rightarrow> (None, db)
      | Some db_contact \<Rightarrow>
          (Some db_contact,
           db\<lparr>contacts := filter (\<lambda>r. c_id r \<noteq> c_id db_contact) (contacts db)\<rparr>))"

text \<open>
  SQL's LIKE: in the pattern \<open>%\<close> stands for any run of characters, \<open>_\<close> for any one
  character, and a backslash makes the character after it literal; a pattern that ends in
  a lone backslash matches nothing. ILIKE compares without regard to the case of
  the letters A to Z. The first argument of \<open>like\<close> is the pattern.
\<close>

fun like :: "string \<Rightarrow> string \<Rightarrow> bool" where
  "like [] s = (s = [])"
| "like (p # ps) [] = (p = CHR ''%'' \<and> like ps [])"
| "like (p # ps) (c # s) =
     (if p = CHR ''%'' then like ps (c # s) \<or> like (p # ps) s
      else if p = CHR ''_'' then like ps s
      else if p = CHR 0x5C then (case ps of [] \<Rightarrow> False | q # qs \<Rightarrow> c = q \<and> like qs s)
      else p = c \<and> like ps s)"

definition lower_char :: "char \<Rightarrow> char" where
  "lower_char c =
     (let n = (of_char c :: nat) in if 65 \<le> n \<and> n \<le> 90 then char_of (n + 32) else c)"

definition ilike :: "string \<Rightarrow> string \<Rightarrow> bool" where
  "ilike column pattern = like (map lower_char pattern) (map lower_char column)"

text \<open>
  A filter that is \<open>None\<close> or the empty string is false in Python and adds no condition.
\<close>

definition search_contacts ::
  "Session \<Rightarrow> User \<Rightarrow> string option \<Rightarrow> string option \<Rightarrow> string option \<Rightarrow> Contact list" where
  "search_contacts db user first_name_arg second_name_arg email_arg =
     (let query = filter (\<lambda>c. user_id c = Some (u_id user)) (contacts db);
          query = (case first_name_arg of
                     None \<Rightarrow> query
                   | Some v \<Rightarrow> if v = [] then query
                               else filter (\<lambda>c. ilike (first_name c) (''%'' @ v @ ''%'')) query);
          query = (case second_name_arg of
                     None \<Rightarrow> query
                   | Some v \<Rightarrow> if v = [] then query
                               else filter (\<lambda>c. ilike (second_name c) (''%'' @ v @ ''%'')) query);
          query = (case email_arg of
                     None \<Rightarrow> query
                   | Some v \<Rightarrow> if v = [] then query
                               else filter (\<lambda>c. ilike (c_email c) (''%'' @ v @ ''%'')) query)
      in query)"

text \<open>
  \<open>today\<close> is the value of \<open>date.today()\<close>. The second query is appended to the
  first with \<open>+=\<close>.
\<close>

definition get_upcoming_birthdays :: "date \<Rightarrow> Session \<Rightarrow> User \<Rightarrow> error + Contact list" where
  "get_upcoming_birthdays today db user =
     (case plus_days today 7 of
        Inl e \<Rightarrow> Inl e
      | Inr seven_days_later \<Rightarrow>
          (let contacts_with_upcoming_birthdays =
                 filter (\<lambda>c. user_id c = Some (u_id user) \<and>
                              month (birthdate c) = month today \<and>
                              day (birthdate c) \<ge> day today \<and>
                              day (birthdate c) \<le> day seven_days_later) (contacts db)
           in if month today \<noteq> month seven_days_later
              then Inr (contacts_with_upcoming_birthdays @
                        filter (\<lambda>c. month (birthdate c) = month seven_days_later \<and>
                                     day (birthdate c) \<le> day seven_days_later) (contacts db))
              else Inr contacts_with_upcoming_birthdays))"

section \<open>Notions used to state the properties of the contact queries\<close>

text \<open>
  The month after month \<open>m\<close>.
\<close>

definition next_month :: "nat \<Rightarrow> nat" where
  "next_month m = (if m = 12 then 1 else m + 1)"

text \<open>
  The characters that LIKE does not take literally.
\<close>

definition wildcard :: "char \<Rightarrow> bool" where
  "wildcard c = (c = CHR ''%'' \<or> c = CHR ''_'' \<or> c = CHR 0x5C)"

definition wildcard_free :: "string option \<Rightarrow> bool" where
  "wildcard_free v = (case v of None \<Rightarrow> True | Some s \<Rightarrow> list_all (\<lambda>c. \<not> wildcard c) s)"

text \<open>
  The search as the specification words it: a filter that is given holds of a column when
  the filter's text occurs in the column's text as a contiguous part, letters compared
  without regard to case; a filter that is not given holds of every column.
\<close>

definition contains_ci :: "string \<Rightarrow> string \<Rightarrow> bool" where
  "contains_ci needle s = sublist (map lower_char needle) (map lower_char s)"

definition filter_holds :: "string option \<Rightarrow> string \<Rightarrow> bool" where
  "filter_holds v column = (case v of None \<Rightarrow> True | Some needle \<Rightarrow> contains_ci needle column)"

section \<open>Properties of the rate limiter\<close>

lemma limit_rate_absent:
  "redis_get s (rate_key uid) t = None \<Longrightarrow>
   limit_rate t uid s = Inr (s(rate_key uid \<mapsto> \<lparr>rvalue = 1, expire_at = Some (t + TIME_FRAME)\<rparr>))"
  by (simp add: limit_rate_def redis_set_ex_def)

lemma limit_rate_counting:
  assumes "s (rate_key uid) = Some \<lparr>rvalue = c, expire_at = Some w\<rparr>" and "t \<le> w"
  shows "limit_rate t uid s =
           (if c < RATE_LIMIT
            then Inr (s(rate_key uid \<mapsto> \<lparr>rvalue = c + 1, expire_at = Some w\<rparr>))
            else Inl too_many_requests)"
  using assms by (simp add: limit_rate_def redis_get_def redis_incr_def live_def)

lemma limit_rate_expired:
  assumes "s (rate_key uid) = Some \<lparr>rvalue = c, expire_at = Some w\<rparr>" and "w < t"
  shows "limit_rate t uid s =
           Inr (s(rate_key uid \<mapsto> \<lparr>rvalue = 1, expire_at = Some (t + TIME_FRAME)\<rparr>))"
  using assms by (simp add: limit_rate_def redis_get_def redis_set_ex_def live_def)

text \<open>
  Claim C3. Starting from a store in which the identity has no counter, five calls made
  before the window of the first call closes all succeed, a sixth call in that window
  fails with HTTP 429, and any call made after the window has closed succeeds again.
\<close>

theorem limit_rate_five_then_reject:
  assumes absent: "redis_get s (rate_key uid) t1 = None"
    and t2: "t2 < t1 + TIME_FRAME" and t3: "t3 < t1 + TIME_FRAME"
    and t4: "t4 < t1 + TIME_FRAME" and t5: "t5 < t1 + TIME_FRAME"
    and t6: "t6 < t1 + TIME_FRAME"
  shows "\<exists>s1 s2 s3 s4 s5.
           limit_rate t1 uid s = Inr s1 \<and>
           limit_rate t2 uid s1 = Inr s2 \<and>
           limit_rate t3 uid s2 = Inr s3 \<and>
           limit_rate t4 uid s3 = Inr s4 \<and>
           limit_rate t5 uid s4 = Inr s5 \<and>
           limit_rate t6 uid s5 = Inl (HTTPException 429 ''Too many requests. Please try again later.'') \<and>
           (\<forall>t7. t1 + TIME_FRAME < t7 \<longrightarrow> (\<exists>s6. limit_rate t7 uid s5 = Inr s6))"
proof -
  let ?k = "rate_key uid"
  let ?w = "t1 + TIME_FRAME"
  let ?st = "\<lambda>c. s(?k \<mapsto> \<lparr>rvalue = c, expire_at = Some ?w\<rparr>)"
  have step: "limit_rate t uid (?st c) = Inr (?st (c + 1))" if "t < ?w" "c < 5" for t c
    using limit_rate_counting [of "?st c" uid c ?w t] that
    by (simp add: RATE_LIMIT_def)
  have c1: "limit_rate t1 uid s = Inr (?st 1)"
    using limit_rate_absent [OF absent] .
  have c2: "limit_rate t2 uid (?st 1) = Inr (?st 2)" using step [OF t2, of 1] by simp
  have c3: "limit_rate t3 uid (?st 2) = Inr (?st 3)" using step [OF t3, of 2] by simp
  have c4: "limit_rate t4 uid (?st 3) = Inr (?st 4)" using step [OF t4, of 3] by simp
  have c5: "limit_rate t5 uid (?st 4) = Inr (?st 5)" using step [OF t5, of 4] by simp
  have c6: "limit_rate t6 uid (?st 5) = Inl (HTTPException 429 ''Too many requests. Please try again later.'')"
    using limit_rate_counting [of "?st 5" uid 5 ?w t6] t6
    by (simp add: RATE_LIMIT_def too_many_requests_def)
  have c7: "\<exists>s6. limit_rate t7 uid (?st 5) = Inr s6" if "?w < t7" for t7
    using limit_rate_expired [of "?st 5" uid 5 ?w t7] that by simp
  from c1 c2 c3 c4 c5 c6 c7 show ?thesis by blast
qed

theorem limit_rate_five_then_reject_witness:
  "\<exists>s1 s2 s3 s4 s5 s6.
     limit_rate 100 ''7'' Map.empty = Inr s1 \<and>
     limit_rate 110 ''7'' s1 = Inr s2 \<and>
     limit_rate 120 ''7'' s2 = Inr s3 \<and>
     limit_rate 130 ''7'' s3 = Inr s4 \<and>
     limit_rate 140 ''7'' s4 = Inr s5 \<and>
     limit_rate 159 ''7'' s5 = Inl (HTTPException 429 ''Too many requests. Please try again later.'') \<and>
     limit_rate 161 ''7'' s5 = Inr s6"
proof -
  have a: "redis_get Map.empty (rate_key ''7'') 100 = None"
    by (simp add: redis_get_def live_def)
  have b: "(110::nat) < 100 + TIME_FRAME" "(120::nat) < 100 + TIME_FRAME"
    "(130::nat) < 100 + TIME_FRAME" "(140::nat) < 100 + TIME_FRAME"
    "(159::nat) < 100 + TIME_FRAME"
    by (simp_all add: TIME_FRAME_def)
  from limit_rate_five_then_reject [OF a b]
  obtain s1 s2 s3 s4 s5 where
    c: "limit_rate 100 ''7'' Map.empty = Inr s1" "limit_rate 110 ''7'' s1 = Inr s2"
      "limit_rate 120 ''7'' s2 = Inr s3" "limit_rate 130 ''7'' s3 = Inr s4"
      "limit_rate 140 ''7'' s4 = Inr s5"
      "limit_rate 159 ''7'' s5 = Inl (HTTPException 429 ''Too many requests. Please try again later.'')"
    and d: "\<forall>t7. 100 + TIME_FRAME < t7 \<longrightarrow> (\<exists>s6. limit_rate t7 ''7'' s5 = Inr s6)"
    by blast
  have "(100::nat) + TIME_FRAME < 161"
    by (simp add: TIME_FRAME_def)
  with d obtain s6 where "limit_rate 161 ''7'' s5 = Inr s6"
    by blast
  with c show ?thesis
    by blast
qed

text \<open>
  Claim C8. A successful call either creates the counter, and only then sets its expiry
  (to 60 seconds after the call), or increments a counter that exists and leaves its
  expiry as it was; in both cases no other key is touched. A rejected call returns no
  new store at all.
\<close>

theorem limit_rate_expiry_only_at_creation:
  assumes "limit_rate t uid s = Inr s'"
  shows "(case redis_get s (rate_key uid) t of
            None \<Rightarrow> s' (rate_key uid) = Some \<lparr>rvalue = 1, expire_at = Some (t + TIME_FRAME)\<rparr>
          | Some c \<Rightarrow>
              map_option expire_at (s' (rate_key uid)) = map_option expire_at (s (rate_key uid)) \<and>
              map_option rvalue (s' (rate_key uid)) = Some (c + 1)) \<and>
         (\<forall>k. k \<noteq> rate_key uid \<longrightarrow> s' k = s k)"
  using assms
  by (auto simp: limit_rate_def redis_get_def redis_set_ex_def redis_incr_def live_def Let_def
           split: option.splits if_splits)

theorem limit_rate_expiry_only_at_creation_witness:
  "limit_rate 130 ''7'' [rate_key ''7'' \<mapsto> \<lparr>rvalue = 3, expire_at = Some 160\<rparr>]
     = Inr [rate_key ''7'' \<mapsto> \<lparr>rvalue = 4, expire_at = Some 160\<rparr>] \<and>
   map_option expire_at ([rate_key ''7'' \<mapsto> \<lparr>rvalue = 4, expire_at = Some 160\<rparr>] (rate_key ''7''))
     = Some (Some 160)"
proof -
  have r: "limit_rate 130 ''7'' [rate_key ''7'' \<mapsto> \<lparr>rvalue = 3, expire_at = Some 160\<rparr>]
             = Inr [rate_key ''7'' \<mapsto> \<lparr>rvalue = 4, expire_at = Some 160\<rparr>]"
    by (simp add: limit_rate_def redis_get_def redis_incr_def live_def RATE_LIMIT_def)
  show ?thesis
    using limit_rate_expiry_only_at_creation [OF r] r
    by (simp add: redis_get_def live_def)
qed

section \<open>Properties of the token service\<close>

lemma map_of_dict_update: "map_of (dict_update k v d) = (map_of d)(k \<mapsto> v)"
  by (induction d) (auto simp: fun_eq_iff)

lemma dict_item_update_same: "dict_item (dict_update k v d) k = Inr v"
  by (simp add: dict_item_def map_of_dict_update)

lemma jwt_decode_own:
  "jwt_decode now (jwt_encode claims (SECRET_KEY self) (ALGORITHM self))
     (SECRET_KEY self) [ALGORITHM self] =
     (case validate_claims now claims of Some e \<Rightarrow> Inl e | None \<Rightarrow> Inr claims)"
  by (simp add: jwt_decode_def jwt_encode_def)

lemma jwt_decode_InrD:
  "jwt_decode now tok key algorithms = Inr payload \<Longrightarrow>
     \<exists>alg. tok = JWS key alg payload \<and> alg \<in> set algorithms \<and> validate_claims now payload = None"
  by (auto simp: jwt_decode_def split: token.splits if_splits option.splits)

text \<open>
  The claims that the application itself signs, a subject that is a string next to the
  claims the token service adds, pass the library's validation until they expire.
\<close>

lemma validate_claims_sub_exp_scope:
  "validate_claims now [(''sub'', JStr e), (''exp'', JNum x), (''scope'', JStr s)] =
     (if x < now then Some ExpiredSignatureError else None)"
  by (simp add: validate_claims_def validate_iat_def validate_nbf_def validate_exp_def
        validate_aud_def validate_sub_def validate_jti_def validate_at_hash_def claim_int_def
        py_int_def)

lemma validate_claims_sub_iat_exp:
  "validate_claims now [(''sub'', JStr e), (''iat'', JNum i), (''exp'', JNum x)] =
     (if x < now then Some ExpiredSignatureError else None)"
  by (simp add: validate_claims_def validate_iat_def validate_nbf_def validate_exp_def
        validate_aud_def validate_sub_def validate_jti_def validate_at_hash_def claim_int_def
        py_int_def)

lemma create_access_token_sub:
  "create_access_token self utcnow [(''sub'', JStr e)] None =
     JWS (SECRET_KEY self) (ALGORITHM self)
       [(''sub'', JStr e), (''exp'', JNum (utcnow + 30 * 60)), (''scope'', JStr ''access_token'')]"
  by (simp add: create_access_token_def jwt_encode_def)

lemma create_refresh_token_sub:
  "create_refresh_token self utcnow [(''sub'', JStr e)] None =
     JWS (SECRET_KEY self) (ALGORITHM self)
       [(''sub'', JStr e), (''exp'', JNum (utcnow + 7 * 86400)),
        (''scope'', JStr ''refresh_token'')]"
  by (simp add: create_refresh_token_def jwt_encode_def)

lemma create_email_token_sub:
  "create_email_token self utcnow [(''sub'', JStr e)] =
     JWS (SECRET_KEY self) (ALGORITHM self)
       [(''sub'', JStr e), (''iat'', JNum utcnow), (''exp'', JNum (utcnow + 7 * 86400))]"
  by (simp add: create_email_token_def jwt_encode_def)

lemma decode_access_token_sub:
  assumes "now \<le> utcnow + 30 * 60"
  shows "jwt_decode now (create_access_token self utcnow [(''sub'', JStr e)] None)
           (SECRET_KEY self) [ALGORITHM self]
         = Inr [(''sub'', JStr e), (''exp'', JNum (utcnow + 30 * 60)),
                (''scope'', JStr ''access_token'')]"
  using assms
  by (simp add: create_access_token_sub jwt_decode_def validate_claims_sub_exp_scope)

lemma decode_refresh_token_created:
  assumes "now \<le> utcnow + 7 * 86400"
  shows "decode_refresh_token self now (create_refresh_token self utcnow [(''sub'', JStr e)] None)
           = Inr (JStr e)"
  using assms
  by (simp add: decode_refresh_token_def create_refresh_token_sub jwt_decode_def
        validate_claims_sub_exp_scope dict_item_def)

lemma decode_email_token:
  assumes "now \<le> utcnow + 7 * 86400"
  shows "jwt_decode now (create_email_token self utcnow [(''sub'', JStr e)])
           (SECRET_KEY self) [ALGORITHM self]
         = Inr [(''sub'', JStr e), (''iat'', JNum utcnow), (''exp'', JNum (utcnow + 7 * 86400))]"
  using assms
  by (simp add: create_email_token_sub jwt_decode_def validate_claims_sub_iat_exp)

lemma get_email_from_email_token:
  assumes "now \<le> utcnow + 7 * 86400"
  shows "get_email_from_token self now (create_email_token self utcnow [(''sub'', JStr e)])
           = Inr (JStr e)"
  using assms by (simp add: get_email_from_token_def decode_email_token dict_get_def)

text \<open>
  Claim C5, as the code has it. Whatever claims an access token was made from: when the
  signing library decodes it (valid signature, not expired, claims that pass the library's
  validation), \<open>decode_refresh_token\<close> fails with "Invalid scope for token"; when the
  library refuses it with a \<open>JWTError\<close>, \<open>decode_refresh_token\<close> fails with "Could not
  validate credentials". The access token that the application issues, for a subject that
  is a string, is decoded until it expires, so it gets the failure of the scope. And
  whenever \<open>decode_refresh_token\<close> returns a subject, the token is signed with the
  service's key and carries the scope \<open>refresh_token\<close> and that subject.
\<close>

theorem decode_refresh_token_access_token:
  "decode_refresh_token self now (create_access_token self utcnow data expires_delta) =
     (case jwt_decode now (create_access_token self utcnow data expires_delta)
             (SECRET_KEY self) [ALGORITHM self] of
        Inr payload \<Rightarrow> Inl (HTTPException 401 ''Invalid scope for token'')
      | Inl err \<Rightarrow>
          if is_JWTError err then Inl (HTTPException 401 ''Could not validate credentials'')
          else Inl err) \<and>
   (now \<le> utcnow + 30 * 60 \<longrightarrow>
      decode_refresh_token self now (create_access_token self utcnow [(''sub'', JStr email)] None)
        = Inl (HTTPException 401 ''Invalid scope for token'')) \<and>
   (\<forall>tok sub. decode_refresh_token self now tok = Inr sub \<longrightarrow>
      (\<exists>claims. tok = JWS (SECRET_KEY self) (ALGORITHM self) claims \<and>
                map_of claims ''scope'' = Some (JStr ''refresh_token'') \<and>
                map_of claims ''sub'' = Some sub))"
proof (intro conjI impI allI)
  let ?tok = "create_access_token self utcnow data expires_delta"
  show "decode_refresh_token self now ?tok =
     (case jwt_decode now ?tok (SECRET_KEY self) [ALGORITHM self] of
        Inr payload \<Rightarrow> Inl (HTTPException 401 ''Invalid scope for token'')
      | Inl err \<Rightarrow>
          if is_JWTError err then Inl (HTTPException 401 ''Could not validate credentials'')
          else Inl err)"
  proof (cases "jwt_decode now ?tok (SECRET_KEY self) [ALGORITHM self]")
    case (Inl err)
    then show ?thesis
      by (simp add: decode_refresh_token_def credentials_exception_def)
  next
    case (Inr payload)
    then obtain expire where
      "payload = dict_update ''scope'' (JStr ''access_token'') (dict_update ''exp'' (JNum expire) data)"
      by (auto simp: create_access_token_def jwt_encode_def Let_def dest!: jwt_decode_InrD)
    with Inr show ?thesis
      by (simp add: decode_refresh_token_def dict_item_update_same invalid_scope_def)
  qed
next
  assume "now \<le> utcnow + 30 * 60"
  then show "decode_refresh_token self now
               (create_access_token self utcnow [(''sub'', JStr email)] None)
             = Inl (HTTPException 401 ''Invalid scope for token'')"
    by (simp add: decode_refresh_token_def decode_access_token_sub dict_item_def
          invalid_scope_def)
next
  fix tok sub
  assume "decode_refresh_token self now tok = Inr sub"
  then show "\<exists>claims. tok = JWS (SECRET_KEY self) (ALGORITHM self) claims \<and>
                map_of claims ''scope'' = Some (JStr ''refresh_token'') \<and>
                map_of claims ''sub'' = Some sub"
    by (auto simp: decode_refresh_token_def dict_item_def
             split: sum.splits if_splits option.splits dest!: jwt_decode_InrD)
qed

theorem decode_refresh_token_access_token_witness:
  "decode_refresh_token \<lparr>pwd_context = \<lparr>hash = id, verify = (=)\<rparr>, SECRET_KEY = ''k'', ALGORITHM = ''HS256''\<rparr>
     100 (create_access_token \<lparr>pwd_context = \<lparr>hash = id, verify = (=)\<rparr>, SECRET_KEY = ''k'', ALGORITHM = ''HS256''\<rparr>
            0 [(''sub'', JStr ''ann@example.com'')] None)
     = Inl (HTTPException 401 ''Invalid scope for token'') \<and>
   (\<exists>claims.
      create_refresh_token \<lparr>pwd_context = \<lparr>hash = id, verify = (=)\<rparr>, SECRET_KEY = ''k'', ALGORITHM = ''HS256''\<rparr>
        0 [(''sub'', JStr ''ann@example.com'')] None = JWS ''k'' ''HS256'' claims \<and>
      map_of claims ''scope'' = Some (JStr ''refresh_token'') \<and>
      map_of claims ''sub'' = Some (JStr ''ann@example.com''))"
proof -
  let ?a = "\<lparr>pwd_context = \<lparr>hash = id, verify = (=)\<rparr>, SECRET_KEY = ''k'', ALGORITHM = ''HS256''\<rparr>"
  let ?d = "[(''sub'', JStr ''ann@example.com'')]"
  have r: "decode_refresh_token ?a 100 (create_refresh_token ?a 0 ?d None) = Inr (JStr ''ann@example.com'')"
    by (rule decode_refresh_token_created) simp
  note t = decode_refresh_token_access_token [of ?a 100 0 ?d None "''ann@example.com''"]
  from t have "(100::int) \<le> 0 + 30 * 60 \<longrightarrow>
      decode_refresh_token ?a 100 (create_access_token ?a 0 ?d None)
        = Inl (HTTPException 401 ''Invalid scope for token'')"
    by (rule conjunct1 [OF conjunct2])
  then have a: "decode_refresh_token ?a 100 (create_access_token ?a 0 ?d None)
        = Inl (HTTPException 401 ''Invalid scope for token'')"
    by simp
  from t have "\<forall>tok sub. decode_refresh_token ?a 100 tok = Inr sub \<longrightarrow>
      (\<exists>claims. tok = JWS (SECRET_KEY ?a) (ALGORITHM ?a) claims \<and>
                map_of claims ''scope'' = Some (JStr ''refresh_token'') \<and>
                map_of claims ''sub'' = Some sub)"
    by (rule conjunct2 [OF conjunct2])
  with r have "\<exists>claims. create_refresh_token ?a 0 ?d None
                  = JWS (SECRET_KEY ?a) (ALGORITHM ?a) claims \<and>
                map_of claims ''scope'' = Some (JStr ''refresh_token'') \<and>
                map_of claims ''sub'' = Some (JStr ''ann@example.com'')"
    by blast
  with a show ?thesis by simp
qed

text \<open>
  The claim as it is stated, for every token of \<open>create_access_token\<close> with a valid
  signature and not expired, fails: an access token made from the data \<open>{'sub': 5}\<close> is
  refused by the library, whose subject must be a string, and \<open>decode_refresh_token\<close>
  answers with the failure for a token that does not decode.
\<close>

theorem decode_refresh_token_access_token_counterexample:
  "decode_refresh_token \<lparr>pwd_context = \<lparr>hash = id, verify = (=)\<rparr>, SECRET_KEY = ''k'', ALGORITHM = ''HS256''\<rparr>
     100 (create_access_token \<lparr>pwd_context = \<lparr>hash = id, verify = (=)\<rparr>, SECRET_KEY = ''k'', ALGORITHM = ''HS256''\<rparr>
            0 [(''sub'', JNum 5)] None)
     = Inl (HTTPException 401 ''Could not validate credentials'')"
  by (simp add: decode_refresh_token_def create_access_token_def jwt_encode_def jwt_decode_def
        validate_claims_def validate_iat_def validate_nbf_def validate_exp_def
        validate_aud_def validate_sub_def validate_jti_def validate_at_hash_def claim_int_def
        py_int_def credentials_exception_def)

section \<open>Properties of the users and the authentication routes\<close>

lemma find_SomeD: "find P xs = Some x \<Longrightarrow> P x \<and> x \<in> set xs"
  by (induction xs) (auto split: if_splits)

lemma find_append_case:
  "find P (xs @ ys) = (case find P xs of None \<Rightarrow> find P ys | Some x \<Rightarrow> Some x)"
  by (induction xs) auto

lemma find_map_key:
  assumes "find P xs = Some u" and "\<And>r. P (f r) = P r"
  shows "find P (map (\<lambda>r. if k r = k u then f r else r) xs) = Some (f u)"
  using assms by (induction xs) (auto split: if_splits)

lemma get_user_by_email_SomeD:
  "get_user_by_email email db = Some user \<Longrightarrow>
     email = JStr (u_email user) \<and> user \<in> set (users db)"
  unfolding get_user_by_email_def by (auto dest: find_SomeD)

lemma get_user_by_email_update_token:
  assumes "get_user_by_email email db = Some user"
  shows "get_user_by_email email (update_token user t db) = Some (user\<lparr>refresh_token := t\<rparr>)"
  using find_map_key [where P = "\<lambda>r. JStr (u_email r) = email"
      and f = "\<lambda>r. r\<lparr>refresh_token := t\<rparr>" and k = u_id,
      OF assms [unfolded get_user_by_email_def]]
  by (simp add: get_user_by_email_def update_token_def)

lemma get_user_by_email_confirmed:
  assumes "get_user_by_email email db = Some user"
  shows "\<exists>db'. confirmed_email email db = Inr db' \<and>
               get_user_by_email email db' = Some (user\<lparr>confirmed := True\<rparr>)"
  using find_map_key [where P = "\<lambda>r. JStr (u_email r) = email"
      and f = "\<lambda>r. r\<lparr>confirmed := True\<rparr>" and k = u_id,
      OF assms [unfolded get_user_by_email_def]] assms
  by (simp add: get_user_by_email_def confirmed_email_def)

text \<open>
  Storing a refresh token changes no user's \<open>confirmed\<close> flag.
\<close>

lemma update_token_confirmed:
  "map confirmed (users (update_token user t db)) = map confirmed (users db)"
  by (simp add: update_token_def o_def if_distrib [of confirmed] cong: if_cong)

text \<open>
  A user that \<open>register\<close> has created is stored unconfirmed, under an email that was
  not registered before.
\<close>

lemma register_unconfirmed:
  assumes "register self gravatar body db = (Inr (u, tasks), db')"
  shows "get_user_by_email (JStr (uc_email body)) db' = Some u \<and> \<not> confirmed u \<and>
         get_user_by_email (JStr (uc_email body)) db = None"
  using assms
  by (auto simp: register_def create_user_def get_user_by_email_def Let_def find_append_case
           split: option.splits sum.splits if_splits prod.splits)

text \<open>
  What \<open>get_current_user\<close> can fail with, and what a token it accepts looks like.
\<close>

lemma py_int_failure: "py_int v = Inl e \<Longrightarrow> e = ValueError \<or> e = TypeError"
  by (auto simp: py_int_def split: json.splits option.splits)

lemma claim_int_failure:
  assumes "claim_int claims name check = Some e"
    and "\<And>n e'. check n = Some e' \<Longrightarrow> is_JWTError e'"
  shows "is_JWTError e \<or> e = TypeError"
  using assms
  by (auto simp: claim_int_def split: option.splits sum.splits if_splits dest: py_int_failure)

lemma first_failure_Some: "first_failure checks = Some e \<Longrightarrow> Some e \<in> set checks"
  by (induction checks rule: first_failure.induct) auto

lemma validate_claims_failure:
  assumes "validate_claims now claims = Some e"
  shows "is_JWTError e \<or> e = TypeError"
proof -
  have i: "validate_iat claims = Some e \<Longrightarrow> is_JWTError e \<or> e = TypeError"
    unfolding validate_iat_def by (erule claim_int_failure) simp
  have n: "validate_nbf now claims = Some e \<Longrightarrow> is_JWTError e \<or> e = TypeError"
    unfolding validate_nbf_def by (erule claim_int_failure) (auto split: if_splits)
  have x: "validate_exp now claims = Some e \<Longrightarrow> is_JWTError e \<or> e = TypeError"
    unfolding validate_exp_def by (erule claim_int_failure) (auto split: if_splits)
  have r: "validate_aud claims = Some e \<Longrightarrow> is_JWTError e"
    "validate_sub claims = Some e \<Longrightarrow> is_JWTError e"
    "validate_jti claims = Some e \<Longrightarrow> is_JWTError e"
    "validate_at_hash claims = Some e \<Longrightarrow> is_JWTError e"
    by (auto simp: validate_aud_def validate_sub_def validate_jti_def validate_at_hash_def
             split: option.splits json.splits)
  from first_failure_Some [OF assms [unfolded validate_claims_def]]
  have "validate_iat claims = Some e \<or> validate_nbf now claims = Some e \<or>
        validate_exp now claims = Some e \<or> validate_aud claims = Some e \<or>
        validate_sub claims = Some e \<or> validate_jti claims = Some e \<or>
        validate_at_hash claims = Some e"
    by auto
  with i n x r show ?thesis by blast
qed

lemma jwt_decode_failure:
  assumes "jwt_decode now tok key algorithms = Inl e"
  shows "is_JWTError e \<or> e = TypeError"
  using assms
  by (auto simp: jwt_decode_def split: token.splits if_splits option.splits
           dest: validate_claims_failure)

lemma get_current_user_failures:
  assumes "get_current_user self now tok db = Inl e"
  shows "e = credentials_exception \<or> e = KeyError ''scope'' \<or> e = KeyError ''sub'' \<or>
         e = TypeError"
  using assms
  by (auto simp: get_current_user_def dict_item_def
           split: sum.splits option.splits if_splits dest: jwt_decode_failure)

lemma get_current_user_accepts:
  assumes "get_current_user self now tok db = Inr user"
  shows "\<exists>claims. tok = JWS (SECRET_KEY self) (ALGORITHM self) claims \<and>
           map_of claims ''scope'' = Some (JStr ''access_token'') \<and>
           map_of claims ''sub'' = Some (JStr (u_email user)) \<and>
           get_user_by_email (JStr (u_email user)) db = Some user"
proof -
  from assms obtain claims email where
    d: "jwt_decode now tok (SECRET_KEY self) [ALGORITHM self] = Inr claims"
    and c: "map_of claims ''scope'' = Some (JStr ''access_token'')"
      "map_of claims ''sub'' = Some email"
    and g: "get_user_by_email email db = Some user"
    by (auto simp: get_current_user_def dict_item_def
             split: sum.splits option.splits if_splits)
  from g have "email = JStr (u_email user)"
    by (auto dest: get_user_by_email_SomeD)
  with c g jwt_decode_InrD [OF d] show ?thesis by auto
qed

text \<open>
  Claim C4. The claim says that no failure other than "Could not validate credentials"
  leaves \<open>get_current_user\<close>. The token that \<open>create_email_token\<close> signs for the
  confirmation mail has no \<open>scope\<close> claim: it decodes, and \<open>payload['scope']\<close> raises
  a KeyError, which the handler for \<open>JWTError\<close> does not catch.
\<close>

theorem get_current_user_email_token_KeyError:
  "get_current_user self 1000
     (create_email_token self 1000 [(''sub'', JStr ''ann@example.com'')]) db
     = Inl (KeyError ''scope'')"
  by (simp add: get_current_user_def decode_email_token dict_item_def)

text \<open>
  Claim C6. For a registered user whose \<open>confirmed\<close> flag is false, \<open>login\<close> fails
  with status 401 whatever the password and changes nothing; a login that succeeds implies
  the flag is true. Redeeming an unexpired confirmation token for the user's email sets
  the flag of that user, and in the session this leaves, a login with the right password
  returns the access token and the refresh token made for the user's email and stores the
  refresh token with the user, while a login with a wrong password fails with status 401.
\<close>

theorem login_requires_confirmation:
  assumes "get_user_by_email (JStr e) db = Some user"
  shows "(\<not> confirmed user \<longrightarrow>
            login self now e pw db = (Inl (HTTPException 401 ''Email not confirmed''), db)) \<and>
         (\<forall>r db'. login self now e pw db = (Inr r, db') \<longrightarrow> confirmed user) \<and>
         (\<not> confirmed user \<and> t1 \<le> t0 + 7 * 86400 \<longrightarrow>
            (let db1 = db\<lparr>users := map (\<lambda>r. if u_id r = u_id user
                                              then r\<lparr>confirmed := True\<rparr> else r) (users db)\<rparr>;
                 access = create_access_token self t2 [(''sub'', JStr e)] None;
                 refresh = create_refresh_token self t2 [(''sub'', JStr e)] None
             in route_confirmed_email self t1 (create_email_token self t0 [(''sub'', JStr e)]) db
                  = (Inr ''Email confirmed'', db1) \<and>
                get_user_by_email (JStr e) db1 = Some (user\<lparr>confirmed := True\<rparr>) \<and>
                login self t2 e pw db1 =
                  (if verify_password self pw (password user)
                   then (Inr \<lparr>access_token = access, tm_refresh_token = refresh,
                               token_type = ''bearer''\<rparr>,
                         db1\<lparr>users := map (\<lambda>r. if u_id r = u_id user
                                                  then r\<lparr>refresh_token := Some refresh\<rparr>
                                                  else r) (users db1)\<rparr>)
                   else (Inl (HTTPException 401 ''Invalid password''), db1))))"
proof (intro conjI allI impI)
  show "login self now e pw db = (Inl (HTTPException 401 ''Email not confirmed''), db)"
    if "\<not> confirmed user"
    using assms that by (simp add: login_def)
  show "confirmed user" if "login self now e pw db = (Inr r, db')" for r db'
    using assms that by (auto simp: login_def Let_def split: if_splits)
  assume h: "\<not> confirmed user \<and> t1 \<le> t0 + 7 * 86400"
  define db1 where "db1 = db\<lparr>users := map (\<lambda>r. if u_id r = u_id user
                                              then r\<lparr>confirmed := True\<rparr> else r) (users db)\<rparr>"
  from assms have em: "u_email user = e"
    by (auto dest: get_user_by_email_SomeD)
  from get_user_by_email_confirmed [OF assms] assms
  have c: "confirmed_email (JStr e) db = Inr db1"
    and g: "get_user_by_email (JStr e) db1 = Some (user\<lparr>confirmed := True\<rparr>)"
    by (simp_all add: confirmed_email_def db1_def)
  have r: "route_confirmed_email self t1 (create_email_token self t0 [(''sub'', JStr e)]) db
             = (Inr ''Email confirmed'', db1)"
    using h assms c by (simp add: route_confirmed_email_def get_email_from_email_token)
  have l: "login self t2 e pw db1 =
             (if verify_password self pw (password user)
              then (Inr \<lparr>access_token = create_access_token self t2 [(''sub'', JStr e)] None,
                          tm_refresh_token = create_refresh_token self t2 [(''sub'', JStr e)] None,
                          token_type = ''bearer''\<rparr>,
                    db1\<lparr>users := map (\<lambda>r. if u_id r = u_id user
                        then r\<lparr>refresh_token :=
                                 Some (create_refresh_token self t2 [(''sub'', JStr e)] None)\<rparr>
                        else r) (users db1)\<rparr>)
              else (Inl (HTTPException 401 ''Invalid password''), db1))"
    using g em by (simp add: login_def Let_def update_token_def)
  from r g l
  show "let db1 = db\<lparr>users := map (\<lambda>r. if u_id r = u_id user
                                              then r\<lparr>confirmed := True\<rparr> else r) (users db)\<rparr>;
                 access = create_access_token self t2 [(''sub'', JStr e)] None;
                 refresh = create_refresh_token self t2 [(''sub'', JStr e)] None
             in route_confirmed_email self t1 (create_email_token self t0 [(''sub'', JStr e)]) db
                  = (Inr ''Email confirmed'', db1) \<and>
                get_user_by_email (JStr e) db1 = Some (user\<lparr>confirmed := True\<rparr>) \<and>
                login self t2 e pw db1 =
                  (if verify_password self pw (password user)
                   then (Inr \<lparr>access_token = access, tm_refresh_token = refresh,
                               token_type = ''bearer''\<rparr>,
                         db1\<lparr>users := map (\<lambda>r. if u_id r = u_id user
                                                  then r\<lparr>refresh_token := Some refresh\<rparr>
                                                  else r) (users db1)\<rparr>)
                   else (Inl (HTTPException 401 ''Invalid password''), db1))"
    unfolding Let_def db1_def by blast
qed

theorem login_requires_confirmation_witness:
  "login \<lparr>pwd_context = \<lparr>hash = id, verify = (=)\<rparr>, SECRET_KEY = ''k'', ALGORITHM = ''HS256''\<rparr>
     10 ''ann@example.com'' ''pw''
     \<lparr>users_id_seq = 1, contacts_id_seq = 5,
      users = [\<lparr>u_id = 1, username = ''ann'', u_email = ''ann@example.com'', password = ''pw'',
                 avatar = None, refresh_token = None, confirmed = False\<rparr>], contacts = []\<rparr>
     = (Inl (HTTPException 401 ''Email not confirmed''),
        \<lparr>users_id_seq = 1, contacts_id_seq = 5,
         users = [\<lparr>u_id = 1, username = ''ann'', u_email = ''ann@example.com'', password = ''pw'',
                    avatar = None, refresh_token = None, confirmed = False\<rparr>], contacts = []\<rparr>) \<and>
   route_confirmed_email
     \<lparr>pwd_context = \<lparr>hash = id, verify = (=)\<rparr>, SECRET_KEY = ''k'', ALGORITHM = ''HS256''\<rparr> 20
     (create_email_token
        \<lparr>pwd_context = \<lparr>hash = id, verify = (=)\<rparr>, SECRET_KEY = ''k'', ALGORITHM = ''HS256''\<rparr> 5
        [(''sub'', JStr ''ann@example.com'')])
     \<lparr>users_id_seq = 1, contacts_id_seq = 5,
      users = [\<lparr>u_id = 1, username = ''ann'', u_email = ''ann@example.com'', password = ''pw'',
                 avatar = None, refresh_token = None, confirmed = False\<rparr>], contacts = []\<rparr>
     = (Inr ''Email confirmed'',
        \<lparr>users_id_seq = 1, contacts_id_seq = 5,
         users = [\<lparr>u_id = 1, username = ''ann'', u_email = ''ann@example.com'', password = ''pw'',
                    avatar = None, refresh_token = None, confirmed = True\<rparr>], contacts = []\<rparr>) \<and>
   login \<lparr>pwd_context = \<lparr>hash = id, verify = (=)\<rparr>, SECRET_KEY = ''k'', ALGORITHM = ''HS256''\<rparr>
     30 ''ann@example.com'' ''pw''
     \<lparr>users_id_seq = 1, contacts_id_seq = 5,
      users = [\<lparr>u_id = 1, username = ''ann'', u_email = ''ann@example.com'', password = ''pw'',
                 avatar = None, refresh_token = None, confirmed = True\<rparr>], contacts = []\<rparr>
     = (Inr \<lparr>access_token = JWS ''k'' ''HS256''
                [(''sub'', JStr ''ann@example.com''), (''exp'', JNum 1830),
                 (''scope'', JStr ''access_token'')],
              tm_refresh_token = JWS ''k'' ''HS256''
                [(''sub'', JStr ''ann@example.com''), (''exp'', JNum 604830),
                 (''scope'', JStr ''refresh_token'')],
              token_type = ''bearer''\<rparr>,
        \<lparr>users_id_seq = 1, contacts_id_seq = 5,
         users = [\<lparr>u_id = 1, username = ''ann'', u_email = ''ann@example.com'', password = ''pw'',
                    avatar = None,
                    refresh_token = Some (JWS ''k'' ''HS256''
                      [(''sub'', JStr ''ann@example.com''), (''exp'', JNum 604830),
                       (''scope'', JStr ''refresh_token'')]),
                    confirmed = True\<rparr>], contacts = []\<rparr>) \<and>
   login \<lparr>pwd_context = \<lparr>hash = id, verify = (=)\<rparr>, SECRET_KEY = ''k'', ALGORITHM = ''HS256''\<rparr>
     30 ''ann@example.com'' ''guess''
     \<lparr>users_id_seq = 1, contacts_id_seq = 5,
      users = [\<lparr>u_id = 1, username = ''ann'', u_email = ''ann@example.com'', password = ''pw'',
                 avatar = None, refresh_token = None, confirmed = True\<rparr>], contacts = []\<rparr>
     = (Inl (HTTPException 401 ''Invalid password''),
        \<lparr>users_id_seq = 1, contacts_id_seq = 5,
         users = [\<lparr>u_id = 1, username = ''ann'', u_email = ''ann@example.com'', password = ''pw'',
                    avatar = None, refresh_token = None, confirmed = True\<rparr>], contacts = []\<rparr>)"
proof -
  let ?a = "\<lparr>pwd_context = \<lparr>hash = id, verify = (=)\<rparr>, SECRET_KEY = ''k'', ALGORITHM = ''HS256''\<rparr>"
  let ?u = "\<lparr>u_id = 1, username = ''ann'', u_email = ''ann@example.com'', password = ''pw'',
             avatar = None, refresh_token = None, confirmed = False\<rparr>"
  let ?db = "\<lparr>users_id_seq = 1, contacts_id_seq = 5, users = [?u], contacts = []\<rparr>"
  have g: "get_user_by_email (JStr ''ann@example.com'') ?db = Some ?u"
    by (simp add: get_user_by_email_def)
  have v: "verify_password ?a ''pw'' (password ?u)" "\<not> verify_password ?a ''guess'' (password ?u)"
    by (simp_all add: verify_password_def)
  note t = login_requires_confirmation [OF g, where self = ?a and ?t1.0 = 20 and ?t0.0 = 5
      and ?t2.0 = 30]
  from t [where now = 10 and pw = "''pw''"] v(1)
  have a: "login ?a 10 ''ann@example.com'' ''pw'' ?db
             = (Inl (HTTPException 401 ''Email not confirmed''), ?db)"
    and b: "route_confirmed_email ?a 20
              (create_email_token ?a 5 [(''sub'', JStr ''ann@example.com'')]) ?db
            = (Inr ''Email confirmed'',
               \<lparr>users_id_seq = 1, contacts_id_seq = 5, users = [?u\<lparr>confirmed := True\<rparr>],
                contacts = []\<rparr>)"
    and c: "login ?a 30 ''ann@example.com'' ''pw''
              \<lparr>users_id_seq = 1, contacts_id_seq = 5, users = [?u\<lparr>confirmed := True\<rparr>],
               contacts = []\<rparr>
            = (Inr \<lparr>access_token = create_access_token ?a 30 [(''sub'', JStr ''ann@example.com'')] None,
                     tm_refresh_token = create_refresh_token ?a 30 [(''sub'', JStr ''ann@example.com'')] None,
                     token_type = ''bearer''\<rparr>,
               \<lparr>users_id_seq = 1, contacts_id_seq = 5,
                users = [?u\<lparr>confirmed := True, refresh_token :=
                           Some (create_refresh_token ?a 30 [(''sub'', JStr ''ann@example.com'')] None)\<rparr>],
                contacts = []\<rparr>)"
    by (simp_all add: Let_def)
  from t [where now = 10 and pw = "''guess''"] v(2)
  have d: "login ?a 30 ''ann@example.com'' ''guess''
              \<lparr>users_id_seq = 1, contacts_id_seq = 5, users = [?u\<lparr>confirmed := True\<rparr>],
               contacts = []\<rparr>
            = (Inl (HTTPException 401 ''Invalid password''),
               \<lparr>users_id_seq = 1, contacts_id_seq = 5, users = [?u\<lparr>confirmed := True\<rparr>],
                contacts = []\<rparr>)"
    by (simp add: Let_def)
  from a b c d show ?thesis
    by (simp add: create_access_token_sub create_refresh_token_sub)
qed

text \<open>
  Claim C9. When \<open>refresh_token\<close> is called with a refresh token that decodes but is
  not the one stored for its subject, the route clears the stored token and then fails
  with status 401: the session it leaves holds the user with no refresh token, and from
  then on every refresh token of that subject is refused, the one that was stored too.
\<close>

theorem refresh_token_mismatch_revokes:
  assumes "decode_refresh_token self now tok = Inr email"
    and "get_user_by_email email db = Some user"
    and "refresh_token user \<noteq> Some tok"
  shows "route_refresh_token self now tok db =
           (Inl (HTTPException 401 ''Invalid refresh token''), update_token user None db) \<and>
         get_user_by_email email (update_token user None db)
           = Some (user\<lparr>refresh_token := None\<rparr>) \<and>
         (\<forall>now' tok'. decode_refresh_token self now' tok' = Inr email \<longrightarrow>
            fst (route_refresh_token self now' tok' (update_token user None db)) =
              Inl (HTTPException 401 ''Invalid refresh token''))"
proof (intro conjI allI impI)
  show "route_refresh_token self now tok db =
           (Inl (HTTPException 401 ''Invalid refresh token''), update_token user None db)"
    using assms by (simp add: route_refresh_token_def)
  show g: "get_user_by_email email (update_token user None db)
             = Some (user\<lparr>refresh_token := None\<rparr>)"
    using assms(2) by (rule get_user_by_email_update_token)
  fix now' tok'
  assume "decode_refresh_token self now' tok' = Inr email"
  then show "fst (route_refresh_token self now' tok' (update_token user None db)) =
              Inl (HTTPException 401 ''Invalid refresh token'')"
    using g by (simp add: route_refresh_token_def)
qed

theorem refresh_token_mismatch_revokes_witness:
  "route_refresh_token
     \<lparr>pwd_context = \<lparr>hash = id, verify = (=)\<rparr>, SECRET_KEY = ''k'', ALGORITHM = ''HS256''\<rparr> 50
     (create_refresh_token
        \<lparr>pwd_context = \<lparr>hash = id, verify = (=)\<rparr>, SECRET_KEY = ''k'', ALGORITHM = ''HS256''\<rparr> 1
        [(''sub'', JStr ''ann@example.com'')] None)
     \<lparr>users_id_seq = 1, contacts_id_seq = 5, users = [\<lparr>u_id = 1, username = ''ann'', u_email = ''ann@example.com'', password = ''pw'',
                 avatar = None,
                 refresh_token = Some (JWS ''k'' ''HS256''
                   [(''sub'', JStr ''ann@example.com''), (''exp'', JNum 604840),
                    (''scope'', JStr ''refresh_token'')]),
                 confirmed = True\<rparr>], contacts = []\<rparr>
   = (Inl (HTTPException 401 ''Invalid refresh token''),
      \<lparr>users_id_seq = 1, contacts_id_seq = 5, users = [\<lparr>u_id = 1, username = ''ann'', u_email = ''ann@example.com'', password = ''pw'',
                  avatar = None, refresh_token = None, confirmed = True\<rparr>], contacts = []\<rparr>)"
proof -
  let ?a = "\<lparr>pwd_context = \<lparr>hash = id, verify = (=)\<rparr>, SECRET_KEY = ''k'', ALGORITHM = ''HS256''\<rparr>"
  let ?t = "create_refresh_token ?a 1 [(''sub'', JStr ''ann@example.com'')] None"
  let ?u = "\<lparr>u_id = 1, username = ''ann'', u_email = ''ann@example.com'', password = ''pw'',
             avatar = None,
             refresh_token = Some (JWS ''k'' ''HS256''
               [(''sub'', JStr ''ann@example.com''), (''exp'', JNum 604840),
                (''scope'', JStr ''refresh_token'')]),
             confirmed = True\<rparr>"
  let ?db = "\<lparr>users_id_seq = 1, contacts_id_seq = 5, users = [?u], contacts = []\<rparr>"
  have d: "decode_refresh_token ?a 50 ?t = Inr (JStr ''ann@example.com'')"
    by (rule decode_refresh_token_created) simp
  have g: "get_user_by_email (JStr ''ann@example.com'') ?db = Some ?u"
    by (simp add: get_user_by_email_def)
  have n: "refresh_token ?u \<noteq> Some ?t"
    by (simp add: create_refresh_token_def jwt_encode_def)
  from refresh_token_mismatch_revokes [OF d g n]
  show ?thesis by (simp add: update_token_def)
qed

text \<open>
  Claim C10. \<open>request_email\<close> reads \<open>user.confirmed\<close> first: for an email that no
  user is registered under it fails with AttributeError, no HTTP failure; so whenever it
  returns a response the user exists, and the test of \<open>user\<close> that follows is never
  reached with \<open>None\<close>.
\<close>

theorem request_email_unregistered:
  "(get_user_by_email (JStr e) db = None \<longrightarrow>
      request_email e db = Inl (AttributeError ''confirmed'')) \<and>
   (\<forall>r. request_email e db = Inr r \<longrightarrow> get_user_by_email (JStr e) db \<noteq> None)"
  by (auto simp: request_email_def attr_confirmed_def Let_def split: option.splits)

theorem request_email_unregistered_witness:
  "request_email ''nobody@example.com''
     \<lparr>users_id_seq = 1, contacts_id_seq = 5, users = [\<lparr>u_id = 1, username = ''ann'', u_email = ''ann@example.com'', password = ''pw'',
                 avatar = None, refresh_token = None, confirmed = False\<rparr>], contacts = []\<rparr>
   = Inl (AttributeError ''confirmed'')"
proof -
  have "get_user_by_email (JStr ''nobody@example.com'')
          \<lparr>users_id_seq = 1, contacts_id_seq = 5, users = [\<lparr>u_id = 1, username = ''ann'', u_email = ''ann@example.com'', password = ''pw'',
                      avatar = None, refresh_token = None, confirmed = False\<rparr>], contacts = []\<rparr>
        = None"
    by (simp add: get_user_by_email_def)
  with request_email_unregistered [of "''nobody@example.com''"
      "\<lparr>users_id_seq = 1, contacts_id_seq = 5, users = [\<lparr>u_id = 1, username = ''ann'', u_email = ''ann@example.com'', password = ''pw'',
                   avatar = None, refresh_token = None, confirmed = False\<rparr>], contacts = []\<rparr>"]
  show ?thesis by simp
qed

section \<open>Properties of the contact queries\<close>

subsection \<open>Ownership\<close>

text \<open>
  \<open>get_contacts\<close>, \<open>get_contact\<close> and \<open>search_contacts\<close> return only rows of the
  user; \<open>upgrade_contact\<close> and \<open>delete_contact\<close> return and change only a row of the
  user, given that the primary keys of the table are distinct.
\<close>

lemma get_contacts_owned:
  "c \<in> set (get_contacts db user skip limit) \<Longrightarrow> user_id c = Some (u_id user)"
  by (auto simp: get_contacts_def dest!: in_set_takeD in_set_dropD)

lemma get_contact_owned:
  "get_contact db contact_id user = Some c \<Longrightarrow> user_id c = Some (u_id user)"
  by (auto simp: get_contact_def dest: find_SomeD)

lemma search_contacts_owned:
  "c \<in> set (search_contacts db user f s e) \<Longrightarrow> user_id c = Some (u_id user)"
  by (auto simp: search_contacts_def Let_def split: option.splits if_splits)

lemma same_key_same_row:
  assumes "distinct (map c_id xs)" and "x \<in> set xs" and "y \<in> set xs" and "c_id x = c_id y"
  shows "x = y"
  using assms by (meson distinct_map inj_onD)

lemma upgrade_contact_owned:
  assumes "distinct (map c_id (contacts db))"
    and "upgrade_contact db user contact_id contact = (res, db')"
  shows "(\<forall>c. res = Some c \<longrightarrow> user_id c = Some (u_id user)) \<and>
         filter (\<lambda>r. user_id r \<noteq> Some (u_id user)) (contacts db') =
         filter (\<lambda>r. user_id r \<noteq> Some (u_id user)) (contacts db)"
proof (cases "find (\<lambda>c. c_id c = contact_id \<and> user_id c = Some (u_id user)) (contacts db)")
  case None
  with assms(2) show ?thesis by (auto simp: upgrade_contact_def)
next
  case (Some t)
  then have t: "t \<in> set (contacts db)" "user_id t = Some (u_id user)"
    by (auto dest: find_SomeD)
  have "r = t" if "r \<in> set (contacts db)" "c_id r = c_id t" for r
    using same_key_same_row [OF assms(1) that(1) t(1) that(2)] .
  with t have "filter (\<lambda>r. user_id r \<noteq> Some (u_id user))
               (map (\<lambda>r. if c_id r = c_id t then set_fields contact r else r) (contacts db)) =
             filter (\<lambda>r. user_id r \<noteq> Some (u_id user)) (contacts db)"
    by (simp add: filter_map o_def set_fields_def cong: filter_cong) (rule map_idI, auto)
  with Some assms(2) t show ?thesis
    by (auto simp: upgrade_contact_def set_fields_def)
qed

lemma delete_contact_owned:
  assumes "distinct (map c_id (contacts db))"
    and "delete_contact db user contact_id = (res, db')"
  shows "(\<forall>c. res = Some c \<longrightarrow> user_id c = Some (u_id user)) \<and>
         filter (\<lambda>r. user_id r \<noteq> Some (u_id user)) (contacts db') =
         filter (\<lambda>r. user_id r \<noteq> Some (u_id user)) (contacts db)"
proof (cases "find (\<lambda>c. c_id c = contact_id \<and> user_id c = Some (u_id user)) (contacts db)")
  case None
  with assms(2) show ?thesis by (auto simp: delete_contact_def)
next
  case (Some t)
  then have t: "t \<in> set (contacts db)" "user_id t = Some (u_id user)"
    by (auto dest: find_SomeD)
  have "r = t" if "r \<in> set (contacts db)" "c_id r = c_id t" for r
    using same_key_same_row [OF assms(1) that(1) t(1) that(2)] .
  with t have "filter (\<lambda>r. user_id r \<noteq> Some (u_id user))
               (filter (\<lambda>r. c_id r \<noteq> c_id t) (contacts db)) =
             filter (\<lambda>r. user_id r \<noteq> Some (u_id user)) (contacts db)"
    by (simp cong: filter_cong) (rule filter_cong, auto)
  with Some assms(2) t show ?thesis
    by (auto simp: delete_contact_def)
qed

subsection \<open>Calendar arithmetic\<close>

lemma days_in_month_ge: "28 \<le> days_in_month y m"
  by (simp add: days_in_month_def)

lemma funpow_next_day_within:
  "day d + n \<le> days_in_month (year d) (month d) \<Longrightarrow> (next_day ^^ n) d = d\<lparr>day := day d + n\<rparr>"
proof (induction n)
  case 0
  then show ?case by simp
next
  case (Suc n)
  then have "(next_day ^^ n) d = d\<lparr>day := day d + n\<rparr>" by simp
  then have "(next_day ^^ Suc n) d = next_day (d\<lparr>day := day d + n\<rparr>)"
    by (simp only: funpow.simps o_apply)
  also have "\<dots> = d\<lparr>day := day d + Suc n\<rparr>"
    using Suc.prems unfolding next_day_def by simp
  finally show ?case .
qed

lemma plus7_rollover:
  assumes v: "valid_date d" and r: "days_in_month (year d) (month d) < day d + 7"
  shows "(next_day ^^ 7) d =
           \<lparr>year = (if month d = 12 then year d + 1 else year d),
            month = next_month (month d),
            day = day d + 7 - days_in_month (year d) (month d)\<rparr>"
proof -
  let ?dim = "days_in_month (year d) (month d)"
  define k where "k = ?dim - day d"
  from v have le: "day d \<le> ?dim" by (simp add: valid_date_def)
  with r have k: "k \<le> 6" "day d + k = ?dim" by (simp_all add: k_def)
  define d1 where "d1 = \<lparr>year = (if month d = 12 then year d + 1 else year d),
            month = next_month (month d), day = 1\<rparr>"
  have a: "(next_day ^^ k) d = d\<lparr>day := ?dim\<rparr>"
    using funpow_next_day_within [of d k] k by simp
  have b: "next_day (d\<lparr>day := ?dim\<rparr>) = d1"
    using v by (cases d) (auto simp: next_day_def d1_def next_month_def valid_date_def)
  have "day d1 + (6 - k) \<le> days_in_month (year d1) (month d1)"
    using days_in_month_ge [of "year d1" "month d1"] by (simp add: d1_def)
  then have c: "(next_day ^^ (6 - k)) d1 = d1\<lparr>day := day d1 + (6 - k)\<rparr>"
    by (rule funpow_next_day_within)
  have "(7::nat) = (6 - k) + Suc k" using k by simp
  then have "(next_day ^^ 7) d = (next_day ^^ (6 - k)) (next_day ((next_day ^^ k) d))"
    by (simp only: funpow_add funpow.simps o_apply)
  also have "\<dots> = d1\<lparr>day := day d1 + (6 - k)\<rparr>" by (simp only: a b c)
  also have "\<dots> = \<lparr>year = (if month d = 12 then year d + 1 else year d),
            month = next_month (month d), day = day d + 7 - ?dim\<rparr>"
    using k by (simp add: d1_def)
  finally show ?thesis .
qed

lemma plus_days_7_within:
  assumes "valid_date d" and "day d + 7 \<le> days_in_month (year d) (month d)"
  shows "plus_days d 7 = Inr (d\<lparr>day := day d + 7\<rparr>)"
  using assms funpow_next_day_within [of d 7]
  by (simp add: plus_days_def valid_date_def)

lemma plus_days_7_rollover:
  assumes "valid_date d" and "year d < 9999"
    and "days_in_month (year d) (month d) < day d + 7"
  shows "plus_days d 7 =
           Inr \<lparr>year = (if month d = 12 then year d + 1 else year d),
                month = next_month (month d),
                day = day d + 7 - days_in_month (year d) (month d)\<rparr>"
  using assms plus7_rollover [of d]
  by (simp add: plus_days_def)

lemma next_month_neq: "next_month m \<noteq> m"
  by (simp add: next_month_def)

subsection \<open>Upcoming birthdays\<close>

text \<open>
  Claim C1. The claim says that every contact query invoked as user B returns only
  contacts of B. The second query of \<open>get_upcoming_birthdays\<close>, the one for the
  following month, has no filter on the owner: on 2024-01-28 the user with key 2 is
  given the contact of the user with key 1 whose birthday is on 2 February.
\<close>

theorem get_upcoming_birthdays_other_owner:
  "get_upcoming_birthdays \<lparr>year = 2024, month = 1, day = 28\<rparr>
     \<lparr>users_id_seq = 1, contacts_id_seq = 5, users = [],
      contacts = [\<lparr>c_id = 1, first_name = ''Alan'', second_name = ''Kay'',
                   c_email = ''alan@example.com'', phone = ''1'',
                   birthdate = \<lparr>year = 1990, month = 2, day = 2\<rparr>,
                   additional_data = None, user_id = Some 1\<rparr>]\<rparr>
     \<lparr>u_id = 2, username = ''bob'', u_email = ''bob@example.com'', password = ''pw'',
      avatar = None, refresh_token = None, confirmed = True\<rparr>
   = Inr [\<lparr>c_id = 1, first_name = ''Alan'', second_name = ''Kay'',
            c_email = ''alan@example.com'', phone = ''1'',
            birthdate = \<lparr>year = 1990, month = 2, day = 2\<rparr>,
            additional_data = None, user_id = Some 1\<rparr>]"
proof -
  have "plus_days \<lparr>year = 2024, month = 1, day = 28\<rparr> 7 = Inr \<lparr>year = 2024, month = 2, day = 4\<rparr>"
    using plus_days_7_rollover [of "\<lparr>year = 2024, month = 1, day = 28\<rparr>"]
    by (simp add: valid_date_def days_in_month_def next_month_def)
  then show ?thesis
    by (simp add: get_upcoming_birthdays_def)
qed

text \<open>
  What \<open>get_upcoming_birthdays\<close> returns, in general. When today's day \<open>D\<close> plus 7
  stays inside today's month \<open>M\<close>, it is the user's contacts with month \<open>M\<close> and day
  from \<open>D\<close> to \<open>D + 7\<close>. When \<open>D + 7\<close> passes the end of \<open>M\<close>, the first query asks
  for a day that is at least \<open>D\<close> and at most the day of the month of the date seven
  days on, which is smaller: it selects nothing, and the result is the contacts of any
  user with the next month and a day up to \<open>D + 7\<close> minus the length of \<open>M\<close>.
\<close>

lemma get_upcoming_birthdays_within:
  assumes "valid_date today"
    and "day today + 7 \<le> days_in_month (year today) (month today)"
  shows "get_upcoming_birthdays today db user =
           Inr (filter (\<lambda>c. user_id c = Some (u_id user) \<and>
                            month (birthdate c) = month today \<and>
                            day today \<le> day (birthdate c) \<and>
                            day (birthdate c) \<le> day today + 7) (contacts db))"
  using plus_days_7_within [OF assms]
  by (simp add: get_upcoming_birthdays_def)

lemma get_upcoming_birthdays_rollover:
  assumes "valid_date today" and "year today < 9999"
    and "days_in_month (year today) (month today) < day today + 7"
  shows "get_upcoming_birthdays today db user =
           Inr (filter (\<lambda>c. month (birthdate c) = next_month (month today) \<and>
                            day (birthdate c) \<le>
                              day today + 7 - days_in_month (year today) (month today))
                  (contacts db))"
proof -
  let ?dim = "days_in_month (year today) (month today)"
  from assms(1) have "day today \<le> ?dim"
    by (simp add: valid_date_def)
  with assms(3) days_in_month_ge [of "year today" "month today"]
  have "day today + 7 - ?dim < day today"
    by simp
  then have "filter (\<lambda>c. user_id c = Some (u_id user) \<and>
                          month (birthdate c) = month today \<and>
                          day today \<le> day (birthdate c) \<and>
                          day (birthdate c) \<le> day today + 7 - ?dim) (contacts db) = []"
    by (auto simp: filter_empty_conv)
  with plus_days_7_rollover [OF assms] show ?thesis
    by (simp add: get_upcoming_birthdays_def next_month_neq [symmetric])
qed

text \<open>
  Claim C2. The claim's example: on 2024-01-28 a user has contacts born on 29 January,
  30 January, 2 February, 5 February and 1 March. The birthdays of the next seven days are
  those of 29 and 30 January and of 2 February. The code returns the contact of
  2 February alone: the two of the current month are lost, because the first query bounds
  the day by 4, the day of the month of 2024-02-04, instead of the end of January.
\<close>

theorem get_upcoming_birthdays_loses_current_month:
  "get_upcoming_birthdays \<lparr>year = 2024, month = 1, day = 28\<rparr>
     \<lparr>users_id_seq = 1, contacts_id_seq = 5, users = [],
      contacts =
        [\<lparr>c_id = 1, first_name = ''A'', second_name = ''A'', c_email = ''a@example.com'',
          phone = ''1'', birthdate = \<lparr>year = 1990, month = 1, day = 29\<rparr>,
          additional_data = None, user_id = Some 1\<rparr>,
         \<lparr>c_id = 2, first_name = ''B'', second_name = ''B'', c_email = ''b@example.com'',
          phone = ''2'', birthdate = \<lparr>year = 1985, month = 1, day = 30\<rparr>,
          additional_data = None, user_id = Some 1\<rparr>,
         \<lparr>c_id = 3, first_name = ''C'', second_name = ''C'', c_email = ''c@example.com'',
          phone = ''3'', birthdate = \<lparr>year = 2001, month = 2, day = 2\<rparr>,
          additional_data = None, user_id = Some 1\<rparr>,
         \<lparr>c_id = 4, first_name = ''D'', second_name = ''D'', c_email = ''d@example.com'',
          phone = ''4'', birthdate = \<lparr>year = 1970, month = 2, day = 5\<rparr>,
          additional_data = None, user_id = Some 1\<rparr>,
         \<lparr>c_id = 5, first_name = ''E'', second_name = ''E'', c_email = ''e@example.com'',
          phone = ''5'', birthdate = \<lparr>year = 1999, month = 3, day = 1\<rparr>,
          additional_data = None, user_id = Some 1\<rparr>]\<rparr>
     \<lparr>u_id = 1, username = ''ann'', u_email = ''ann@example.com'', password = ''pw'',
      avatar = None, refresh_token = None, confirmed = True\<rparr>
   = Inr [\<lparr>c_id = 3, first_name = ''C'', second_name = ''C'', c_email = ''c@example.com'',
            phone = ''3'', birthdate = \<lparr>year = 2001, month = 2, day = 2\<rparr>,
            additional_data = None, user_id = Some 1\<rparr>]"
proof -
  have "plus_days \<lparr>year = 2024, month = 1, day = 28\<rparr> 7 = Inr \<lparr>year = 2024, month = 2, day = 4\<rparr>"
    using plus_days_7_rollover [of "\<lparr>year = 2024, month = 1, day = 28\<rparr>"]
    by (simp add: valid_date_def days_in_month_def next_month_def)
  then show ?thesis
    by (simp add: get_upcoming_birthdays_def)
qed

subsection \<open>Search\<close>

lemma like_percent: "like [CHR ''%''] s"
  by (induction s) auto

lemma like_literal:
  "\<not> wildcard p \<Longrightarrow> like (p # ps) s = (\<exists>s'. s = p # s' \<and> like ps s')"
  by (cases s) (auto simp: wildcard_def)

lemma like_literals:
  "list_all (\<lambda>c. \<not> wildcard c) v \<Longrightarrow> like (v @ q) s = (\<exists>s'. s = v @ s' \<and> like q s')"
  by (induction v arbitrary: s) (auto simp: like_literal)

lemma like_any: "like (CHR ''%'' # q) s = (\<exists>s1 s2. s = s1 @ s2 \<and> like q s2)"
proof (induction s)
  case Nil
  then show ?case by simp
next
  case (Cons c s)
  show ?case
  proof
    assume "like (CHR ''%'' # q) (c # s)"
    then consider "like q (c # s)" | "like (CHR ''%'' # q) s" by auto
    then show "\<exists>s1 s2. c # s = s1 @ s2 \<and> like q s2"
    proof cases
      case 1
      then have "c # s = [] @ (c # s) \<and> like q (c # s)" by simp
      then show ?thesis by blast
    next
      case 2
      with Cons obtain s1 s2 where "s = s1 @ s2" "like q s2" by blast
      then have "c # s = (c # s1) @ s2 \<and> like q s2" by simp
      then show ?thesis by blast
    qed
  next
    assume "\<exists>s1 s2. c # s = s1 @ s2 \<and> like q s2"
    then obtain s1 s2 where h: "c # s = s1 @ s2" "like q s2" by blast
    show "like (CHR ''%'' # q) (c # s)"
    proof (cases s1)
      case Nil
      with h have "like q (c # s)" by simp
      then show ?thesis by simp
    next
      case (Cons a s1')
      with h have "s = s1' @ s2" by simp
      with h(2) Cons.IH show ?thesis by auto
    qed
  qed
qed

lemma like_contains:
  assumes "list_all (\<lambda>c. \<not> wildcard c) v"
  shows "like (''%'' @ v @ ''%'') s = sublist v s"
proof -
  have "like (''%'' @ v @ ''%'') s = (\<exists>s1 s2. s = s1 @ s2 \<and> like (v @ ''%'') s2)"
    using like_any [of "v @ ''%''" s] by simp
  also have "\<dots> = (\<exists>s1 s2. s = s1 @ s2 \<and> (\<exists>s'. s2 = v @ s'))"
    using like_literals [OF assms, of "''%''"] like_percent by simp
  also have "\<dots> = sublist v s"
    by (auto simp: sublist_def)
  finally show ?thesis .
qed

lemma of_char_wildcards:
  "of_char (CHR ''%'') = (37::nat)" "of_char (CHR ''_'') = (95::nat)"
  "of_char (CHR 0x5C) = (92::nat)"
  by simp_all

lemma wildcard_code: "wildcard c = ((of_char c :: nat) = 37 \<or> (of_char c :: nat) = 95 \<or> (of_char c :: nat) = 92)"
  unfolding wildcard_def of_char_wildcards [symmetric] by (simp only: of_char_eq_iff)

lemma wildcard_lower_char: "wildcard (lower_char c) = wildcard c"
proof (cases "65 \<le> (of_char c :: nat) \<and> (of_char c :: nat) \<le> 90")
  case True
  then have "(of_char (lower_char c) :: nat) = of_char c + 32"
    by (simp add: lower_char_def Let_def of_char_of [where ?'a = nat])
  with True show ?thesis by (simp add: wildcard_code)
next
  case False
  then show ?thesis by (auto simp add: lower_char_def Let_def)
qed

lemma lower_char_percent: "lower_char (CHR ''%'') = CHR ''%''"
  by (simp add: lower_char_def)

lemma ilike_contains:
  assumes "list_all (\<lambda>c. \<not> wildcard c) v"
  shows "ilike column (''%'' @ v @ ''%'') = contains_ci v column"
proof -
  from assms have "list_all (\<lambda>c. \<not> wildcard c) (map lower_char v)"
    by (simp add: list_all_iff wildcard_lower_char)
  from like_contains [OF this, of "map lower_char column"]
  show ?thesis
    by (simp add: ilike_def contains_ci_def lower_char_percent)
qed

lemma contains_ci_Nil: "contains_ci [] column"
  by (simp add: contains_ci_def)

lemma apply_filter:
  assumes "wildcard_free v"
  shows "(case v of
            None \<Rightarrow> query
          | Some s \<Rightarrow> if s = [] then query
                      else filter (\<lambda>c. ilike (col c) (''%'' @ s @ ''%'')) query)
         = filter (\<lambda>c. filter_holds v (col c)) query"
proof (cases v)
  case None
  then show ?thesis by (simp add: filter_holds_def)
next
  case (Some s)
  with assms have "ilike column (''%'' @ s @ ''%'') = contains_ci s column" for column
    by (intro ilike_contains) (simp add: wildcard_free_def)
  with Some show ?thesis
    by (simp add: filter_holds_def contains_ci_Nil)
qed

text \<open>
  Claim C7, as the code has it. For filters that hold none of the characters \<open>%\<close>,
  \<open>_\<close> and backslash, \<open>search_contacts\<close> returns the user's contacts on which every
  given filter holds as a case-insensitive substring match, the filters that are not
  given (or empty) imposing nothing; with no filter it returns all the user's contacts.
\<close>

theorem search_contacts_substring:
  assumes "wildcard_free f" and "wildcard_free s" and "wildcard_free e"
  shows "search_contacts db user f s e =
           filter (\<lambda>c. user_id c = Some (u_id user) \<and> filter_holds f (first_name c) \<and>
                        filter_holds s (second_name c) \<and> filter_holds e (c_email c))
             (contacts db) \<and>
         search_contacts db user None None None =
           filter (\<lambda>c. user_id c = Some (u_id user)) (contacts db)"
proof
  have "search_contacts db user f s e =
          filter (\<lambda>c. filter_holds e (c_email c))
            (filter (\<lambda>c. filter_holds s (second_name c))
              (filter (\<lambda>c. filter_holds f (first_name c))
                (filter (\<lambda>c. user_id c = Some (u_id user)) (contacts db))))"
    unfolding search_contacts_def Let_def
    by (simp only: apply_filter [OF assms(1)] apply_filter [OF assms(2)]
          apply_filter [OF assms(3)])
  then show "search_contacts db user f s e =
           filter (\<lambda>c. user_id c = Some (u_id user) \<and> filter_holds f (first_name c) \<and>
                        filter_holds s (second_name c) \<and> filter_holds e (c_email c))
             (contacts db)"
    by simp
  show "search_contacts db user None None None =
           filter (\<lambda>c. user_id c = Some (u_id user)) (contacts db)"
    by (simp add: search_contacts_def)
qed

theorem search_contacts_substring_witness:
  "search_contacts
     \<lparr>users_id_seq = 1, contacts_id_seq = 5, users = [],
      contacts =
        [\<lparr>c_id = 1, first_name = ''Bob'', second_name = ''Ross'', c_email = ''bob@Example.com'',
          phone = ''1'', birthdate = \<lparr>year = 1990, month = 5, day = 1\<rparr>,
          additional_data = None, user_id = Some 1\<rparr>,
         \<lparr>c_id = 2, first_name = ''Alice'', second_name = ''Ross'', c_email = ''alice@example.com'',
          phone = ''2'', birthdate = \<lparr>year = 1991, month = 6, day = 2\<rparr>,
          additional_data = None, user_id = Some 1\<rparr>,
         \<lparr>c_id = 3, first_name = ''Robert'', second_name = ''Moog'', c_email = ''rob@example.com'',
          phone = ''3'', birthdate = \<lparr>year = 1992, month = 7, day = 3\<rparr>,
          additional_data = None, user_id = Some 2\<rparr>]\<rparr>
     \<lparr>u_id = 1, username = ''ann'', u_email = ''ann@example.com'', password = ''pw'',
      avatar = None, refresh_token = None, confirmed = True\<rparr>
     (Some ''OB'') None (Some ''example'')
   = [\<lparr>c_id = 1, first_name = ''Bob'', second_name = ''Ross'', c_email = ''bob@Example.com'',
       phone = ''1'', birthdate = \<lparr>year = 1990, month = 5, day = 1\<rparr>,
       additional_data = None, user_id = Some 1\<rparr>]"
proof -
  have w: "wildcard_free (Some ''OB'')" "wildcard_free None" "wildcard_free (Some ''example'')"
    by (simp_all add: wildcard_free_def wildcard_def)
  have l: "map lower_char ''OB'' = ''ob''" "map lower_char ''example'' = ''example''"
    "map lower_char ''Bob'' = ''bob''" "map lower_char ''Alice'' = ''alice''"
    "map lower_char ''bob@Example.com'' = ''bob@example.com''"
    "map lower_char ''alice@example.com'' = ''alice@example.com''"
    by code_simp+
  have c: "contains_ci ''OB'' ''Bob''" "\<not> contains_ci ''OB'' ''Alice''"
    "contains_ci ''example'' ''bob@Example.com''"
    unfolding contains_ci_def l by (simp_all add: sublist_Cons_right)
  from search_contacts_substring [OF w] c
  show ?thesis
    by (simp add: filter_holds_def)
qed

text \<open>
  The claim as it is stated fails for a filter that holds a wildcard: the filter \<open>_\<close>
  selects the contact named Bob, in whose name no underscore occurs.
\<close>

theorem search_contacts_wildcard_counterexample:
  "search_contacts
     \<lparr>users_id_seq = 1, contacts_id_seq = 5, users = [],
      contacts =
        [\<lparr>c_id = 1, first_name = ''Bob'', second_name = ''Ross'', c_email = ''bob@example.com'',
          phone = ''1'', birthdate = \<lparr>year = 1990, month = 5, day = 1\<rparr>,
          additional_data = None, user_id = Some 1\<rparr>]\<rparr>
     \<lparr>u_id = 1, username = ''ann'', u_email = ''ann@example.com'', password = ''pw'',
      avatar = None, refresh_token = None, confirmed = True\<rparr>
     (Some ''_'') None None
   = [\<lparr>c_id = 1, first_name = ''Bob'', second_name = ''Ross'', c_email = ''bob@example.com'',
       phone = ''1'', birthdate = \<lparr>year = 1990, month = 5, day = 1\<rparr>,
       additional_data = None, user_id = Some 1\<rparr>] \<and>
   \<not> contains_ci ''_'' ''Bob''"
proof -
  have l: "map lower_char ''_'' = ''_''" "map lower_char ''Bob'' = ''bob''"
    by code_simp+
  have "\<not> contains_ci ''_'' ''Bob''"
    unfolding contains_ci_def l by (simp add: sublist_Cons_right)
  moreover have "ilike ''Bob'' ''%_%''"
    by code_simp
  ultimately show ?thesis
    by (simp add: search_contacts_def)
qed

end
